theory Spec2Isabelle
  imports Main "HOL-Library.AList" "HOL-Library.Sublist" "HOL-Library.Char_ord"
    "HOL-Library.List_Lexorder"
begin

section \<open>The mdlm command-line client: data model\<close>

text \<open>
  A shallow embedding of \<^verbatim>\<open>mdlm/cli.py\<close>, \<^verbatim>\<open>mdlm/manifest.py\<close> and \<^verbatim>\<open>mdlm/api.py\<close>.

  Strings are byte strings (UTF-8); every character the code tests for is ASCII, so the
  tests read the same on bytes as on code points. Paths are the relative path strings the
  code keeps as manifest keys, with \<^verbatim>\<open>/\<close> as the separator (POSIX).

  \<^verbatim>\<open>hashlib.sha256(content.encode("utf-8")).hexdigest()\<close> is a parameter \<open>h\<close> of every
  function that hashes: what is proved holds for every hash function, SHA-256 included.
\<close>

type_synonym path = string
type_synonym hash = string

text \<open>
  A document as the Remote Store returns it. \<^verbatim>\<open>doc["id"]\<close>, \<^verbatim>\<open>doc["version"]\<close>,
  \<^verbatim>\<open>doc["category"]\<close> and \<^verbatim>\<open>doc["title"]\<close> are read unguarded by the code; the content is
  read with \<^verbatim>\<open>doc.get("content", "")\<close>, so it may be missing.
\<close>

record doc =
  doc_id :: string
  doc_version :: int
  doc_category :: string
  doc_title :: string
  doc_content :: "string option"

definition content_of :: "doc \<Rightarrow> string" where
  "content_of d = (case doc_content d of None \<Rightarrow> [] | Some c \<Rightarrow> c)"

text \<open>
  A manifest entry. The entry shape documented in \<^verbatim>\<open>manifest.py\<close> has id, version, category
  and title; \<^verbatim>\<open>content_hash\<close> is missing from manifests written before hashes were stored
  (the code reads it with \<^verbatim>\<open>entry.get("content_hash")\<close>).
\<close>

record entry =
  entry_id :: string
  entry_version :: int
  entry_category :: string
  entry_title :: string
  entry_content_hash :: "hash option"

text \<open>
  The manifest is a Python dict from relative path to entry: an association list in
  insertion order. Assigning to a key that is present replaces its value in place, a new
  key goes to the end, \<^verbatim>\<open>pop\<close> removes the key.
\<close>

type_synonym manifest = "(path \<times> entry) list"

definition add_entry :: "manifest \<Rightarrow> path \<Rightarrow> entry \<Rightarrow> manifest" where
  "add_entry manifest rel_path e = AList.update rel_path e manifest"

definition remove_entry :: "manifest \<Rightarrow> path \<Rightarrow> manifest" where
  "remove_entry manifest rel_path = AList.delete rel_path manifest"

definition get_entry :: "manifest \<Rightarrow> path \<Rightarrow> entry option" where
  "get_entry manifest rel_path = map_of manifest rel_path"

text \<open>
  Mutating an entry object that the dict holds (\<^verbatim>\<open>entry["version"] = ...\<close>): the value
  stored under the key changes, the key keeps its place, and a key that is no longer in
  the dict is not added.
\<close>

definition mutate_entry :: "manifest \<Rightarrow> path \<Rightarrow> (entry \<Rightarrow> entry) \<Rightarrow> manifest" where
  "mutate_entry manifest rel_path f = AList.map_entry rel_path f manifest"

definition VALID_CATEGORIES :: "string list" where
  "VALID_CATEGORIES =
     [''architecture'', ''stack'', ''testing'', ''deployment'', ''security'', ''style'',
      ''dependencies'', ''error_handling'', ''business_logic'', ''general'']"

section \<open>The environment: files, manifest file, Remote Store\<close>

text \<open>
  \<open>files\<close> maps relative paths to nodes. A node either holds text or exists and cannot be
  read (\<^verbatim>\<open>Path.exists()\<close> is true and \<^verbatim>\<open>read_text\<close> raises: no permission, not UTF-8, an
  empty directory). Every proper ancestor of a path in \<open>files\<close> is a directory: it
  exists, reading it raises, and \<^verbatim>\<open>rglob\<close> lists it as it lists a file. Writing a file
  (with \<^verbatim>\<open>mkdir\<close> of its parents) and saving the manifest are taken to succeed.
\<close>

datatype node = Text string | Unreadable

datatype request =
    List_docs "string option"
  | Get_doc string
  | Create_doc string string string
  | Update_doc string string string string "string option"
  | Delete_doc string

text \<open>
  What a request comes back with: a response whose status is below 400 (\<^verbatim>\<open>resp.ok\<close>) with
  its decoded body, a response with an error status (400 or more) and its error detail, or
  no response at all (a timeout or a connection failure: \<^verbatim>\<open>requests\<close> raises).
\<close>

datatype 'a response = Ok_response 'a | Error_response nat string | No_response

text \<open>
  The Remote Store is any state machine: each endpoint maps the store's state to a response
  and the next state.
\<close>

record 'r remote_store =
  list_r :: "string option \<Rightarrow> 'r \<Rightarrow> doc list response \<times> 'r"
  get_r :: "string \<Rightarrow> 'r \<Rightarrow> doc response \<times> 'r"
  create_r :: "string \<Rightarrow> string \<Rightarrow> string \<Rightarrow> 'r \<Rightarrow> doc response \<times> 'r"
  update_r :: "string \<Rightarrow> string \<Rightarrow> string \<Rightarrow> string \<Rightarrow> string option \<Rightarrow> 'r \<Rightarrow> doc response \<times> 'r"
  delete_r :: "string \<Rightarrow> 'r \<Rightarrow> unit response \<times> 'r"

datatype exception = SystemExit | ApiError nat string | RequestException | ReadError | KeyError

datatype message =
    Error_no_api_key
  | Error_not_https
  | Error_authentication_failed
  | Error_access_denied
  | Error_already_initialized
  | Error_unknown_category string
  | Error_no_manifest
  | Error_message string
  | Fetching_docs
  | No_docs_found
  | Cloned nat
  | Edit_hint
  | Nothing_to_pull
  | Error_pulling path string
  | Pulled nat nat
  | Nothing_to_push
  | Status_report "path list" "path list" "path list"
  | Deleted path
  | Error_deleting path string
  | Skipped path
  | Error_checking path string
  | Conflict path int int
  | Updated path int
  | Error_updating path string
  | Created path
  | Error_creating path string
  | Push_complete nat nat nat nat

text \<open>
  The state a command runs in. \<open>api_key\<close> is the key \<^verbatim>\<open>get_api_key\<close> finds (empty when
  there is none), \<open>api_url\<close> the URL \<^verbatim>\<open>get_api_url\<close> reads; \<open>manifest_file\<close> is
  \<^verbatim>\<open>.mdlm/manifest.json\<close> (\<open>None\<close> when the file is absent; a file that is present holds
  a manifest that \<^verbatim>\<open>json.loads\<close> reads back as it was written); \<open>manifest_writes\<close> lists what
  \<^verbatim>\<open>save\<close> has written, oldest first; \<open>requests\<close> lists the requests sent, oldest first;
  \<open>printed\<close> lists the lines printed, oldest first.
\<close>

record 'r world =
  api_key :: string
  api_url :: string
  files :: "(path \<times> node) list"
  manifest_file :: "manifest option"
  manifest_writes :: "manifest list"
  store :: 'r
  requests :: "request list"
  printed :: "message list"

definition print :: "message \<Rightarrow> 'r world \<Rightarrow> 'r world" where
  "print m w = w\<lparr>printed := printed w @ [m]\<rparr>"

subsection \<open>manifest.py\<close>

definition is_initialized :: "'r world \<Rightarrow> bool" where
  "is_initialized w = (manifest_file w \<noteq> None)"

definition load :: "'r world \<Rightarrow> manifest" where
  "load w = (case manifest_file w of None \<Rightarrow> [] | Some m \<Rightarrow> m)"

definition save :: "manifest \<Rightarrow> 'r world \<Rightarrow> 'r world" where
  "save m w = w\<lparr>manifest_file := Some m, manifest_writes := manifest_writes w @ [m]\<rparr>"

subsection \<open>api.py\<close>

definition ApiClient :: "'r world \<Rightarrow> exception option \<times> 'r world" where
  "ApiClient w =
     (if api_key w = [] then (Some SystemExit, print Error_no_api_key w)
      else if \<not> prefix ''https://'' (api_url w) then (Some SystemExit, print Error_not_https w)
      else (None, w))"

definition handle_response :: "'a response \<Rightarrow> 'r world \<Rightarrow> (exception + 'a) \<times> 'r world" where
  "handle_response resp w =
     (case resp of
        Ok_response x \<Rightarrow> (Inr x, w)
      | Error_response status_code detail \<Rightarrow>
          (if status_code = 401 then (Inl SystemExit, print Error_authentication_failed w)
           else if status_code = 403 then (Inl SystemExit, print Error_access_denied w)
           else (Inl (ApiError status_code detail), w))
      | No_response \<Rightarrow> (Inl RequestException, w))"

definition sent :: "request \<Rightarrow> 'r \<Rightarrow> 'r world \<Rightarrow> 'r world" where
  "sent rq r' w = w\<lparr>store := r', requests := requests w @ [rq]\<rparr>"

definition truthy :: "string option \<Rightarrow> bool" where
  "truthy s = (case s of None \<Rightarrow> False | Some c \<Rightarrow> c \<noteq> [])"

definition list_docs :: "'r remote_store \<Rightarrow> string option \<Rightarrow> 'r world \<Rightarrow> (exception + doc list) \<times> 'r world" where
  "list_docs rs category w =
     (let params = (if truthy category then category else None) in
      case list_r rs params (store w) of
        (resp, r') \<Rightarrow> handle_response resp (sent (List_docs params) r' w))"

definition get_doc :: "'r remote_store \<Rightarrow> string \<Rightarrow> 'r world \<Rightarrow> (exception + doc) \<times> 'r world" where
  "get_doc rs d_id w =
     (case get_r rs d_id (store w) of
        (resp, r') \<Rightarrow> handle_response resp (sent (Get_doc d_id) r' w))"

definition create_doc :: "'r remote_store \<Rightarrow> string \<Rightarrow> string \<Rightarrow> string \<Rightarrow> 'r world \<Rightarrow> (exception + doc) \<times> 'r world" where
  "create_doc rs title content category w =
     (case create_r rs title content category (store w) of
        (resp, r') \<Rightarrow> handle_response resp (sent (Create_doc title content category) r' w))"

definition update_doc :: "'r remote_store \<Rightarrow> string \<Rightarrow> string \<Rightarrow> string \<Rightarrow> string \<Rightarrow> string option \<Rightarrow> 'r world \<Rightarrow> (exception + doc) \<times> 'r world" where
  "update_doc rs d_id title content category change_reason w =
     (let reason = (if truthy change_reason then change_reason else None) in
      case update_r rs d_id title content category reason (store w) of
        (resp, r') \<Rightarrow>
          handle_response resp (sent (Update_doc d_id title content category reason) r' w))"

definition delete_doc :: "'r remote_store \<Rightarrow> string \<Rightarrow> 'r world \<Rightarrow> (exception + unit) \<times> 'r world" where
  "delete_doc rs d_id w =
     (case delete_r rs d_id (store w) of
        (resp, r') \<Rightarrow> handle_response resp (sent (Delete_doc d_id) r' w))"

subsection \<open>cli.py: helpers\<close>

definition KNOWLEDGE_DIR :: string where
  "KNOWLEDGE_DIR = ''knowledge''"

definition replace_char :: "char \<Rightarrow> char \<Rightarrow> string \<Rightarrow> string" where
  "replace_char old new name = map (\<lambda>c. if c = old then new else c) name"

definition strip_chars :: "string \<Rightarrow> string \<Rightarrow> string" where
  "strip_chars cs name =
     rev (dropWhile (\<lambda>c. c \<in> set cs) (rev (dropWhile (\<lambda>c. c \<in> set cs) name)))"

definition safe_filename :: "string \<Rightarrow> string" where
  "safe_filename name =
     (let stripped =
        strip_chars ''. ''
          (replace_char (CHR 0x00) (CHR ''_'')
            (replace_char (CHR 0x5C) (CHR ''_'')
              (replace_char (CHR ''/'') (CHR ''_'') name)))
      in if stripped = [] then ''_'' else stripped)"

text \<open>\<^verbatim>\<open>os.path.join\<close> on POSIX, one component at a time.\<close>

definition path_join :: "string \<Rightarrow> string \<Rightarrow> string" where
  "path_join a b =
     (if prefix ''/'' b then b
      else if a = [] \<or> suffix ''/'' a then a @ b
      else a @ ''/'' @ b)"

definition local_path :: "string \<Rightarrow> string \<Rightarrow> path" where
  "local_path category title =
     path_join (path_join KNOWLEDGE_DIR (safe_filename category)) (safe_filename title)"

text \<open>
  \<^verbatim>\<open>Path.read_text(encoding="utf-8")\<close> opens the file in text mode with universal newlines:
  every \<^verbatim>\<open>\r\n\<close> and every lone \<^verbatim>\<open>\r\<close> is read as \<^verbatim>\<open>\n\<close>. \<^verbatim>\<open>write_text\<close> on POSIX writes the
  text as it is.
\<close>

fun universal_newlines :: "string \<Rightarrow> string" where
  "universal_newlines [] = []"
| "universal_newlines [c] = (if c = CHR 0x0D then [CHR 0x0A] else [c])"
| "universal_newlines (c # d # cs) =
     (if c = CHR 0x0D \<and> d = CHR 0x0A then CHR 0x0A # universal_newlines cs
      else if c = CHR 0x0D then CHR 0x0A # universal_newlines (d # cs)
      else c # universal_newlines (d # cs))"

text \<open>
  \<^verbatim>\<open>PurePath.parts\<close> and \<^verbatim>\<open>PurePath.name\<close> over relative paths, and the directories that
  the paths in \<open>files\<close> imply.
\<close>

fun split_on :: "char \<Rightarrow> string \<Rightarrow> string list" where
  "split_on sep [] = [[]]"
| "split_on sep (c # cs) =
     (if c = sep then [] # split_on sep cs
      else (case split_on sep cs of
              [] \<Rightarrow> [[c]]
            | seg # segs \<Rightarrow> (c # seg) # segs))"

definition path_parts :: "path \<Rightarrow> string list" where
  "path_parts p = filter (\<lambda>s. s \<noteq> [] \<and> s \<noteq> ''.'') (split_on (CHR ''/'') p)"

definition path_name :: "path \<Rightarrow> string" where
  "path_name p = (case rev (path_parts p) of [] \<Rightarrow> [] | n # _ \<Rightarrow> n)"

fun join_parts :: "string list \<Rightarrow> path" where
  "join_parts [] = []"
| "join_parts [s] = s"
| "join_parts (s # t # ts) = s @ ''/'' @ join_parts (t # ts)"

definition parent_dirs :: "path \<Rightarrow> path list" where
  "parent_dirs p =
     map (\<lambda>k. join_parts (take k (path_parts p))) [1 ..< length (path_parts p)]"

definition directories :: "'r world \<Rightarrow> path list" where
  "directories w = concat (map (\<lambda>(p, n). parent_dirs p) (files w))"

definition path_exists :: "path \<Rightarrow> 'r world \<Rightarrow> bool" where
  "path_exists p w = (map_of (files w) p \<noteq> None \<or> p \<in> set (directories w))"

definition read_text :: "path \<Rightarrow> 'r world \<Rightarrow> exception + string" where
  "read_text p w =
     (case map_of (files w) p of
        Some (Text s) \<Rightarrow> Inr (universal_newlines s)
      | _ \<Rightarrow> Inl ReadError)"

definition read_local :: "path \<Rightarrow> 'r world \<Rightarrow> exception + string option" where
  "read_local rel_path w =
     (if \<not> path_exists rel_path w then Inr None
      else case read_text rel_path w of
             Inl exn \<Rightarrow> Inl exn
           | Inr content \<Rightarrow> Inr (Some content))"

definition write_local :: "path \<Rightarrow> string \<Rightarrow> 'r world \<Rightarrow> 'r world" where
  "write_local rel_path content w =
     w\<lparr>files := AList.update rel_path (Text content) (files w)\<rparr>"

text \<open>
  \<^verbatim>\<open>Path(KNOWLEDGE_DIR).rglob("*.md")\<close>: every path below the knowledge root whose name ends
  in \<^verbatim>\<open>.md\<close>, a file or a directory.
\<close>

definition under_knowledge_md :: "path \<Rightarrow> bool" where
  "under_knowledge_md p =
     (case path_parts p of
        k # _ # _ \<Rightarrow> k = KNOWLEDGE_DIR \<and> suffix ''.md'' (path_name p)
      | _ \<Rightarrow> False)"

definition rglob_md :: "'r world \<Rightarrow> path list" where
  "rglob_md w = filter under_knowledge_md (remdups (map fst (files w) @ directories w))"

section \<open>cli.py: the commands\<close>

text \<open>
  A command returns \<open>None\<close> when it returns normally and \<open>Some exn\<close> when an exception
  leaves it (\<^verbatim>\<open>sys.exit(1)\<close> raises \<open>SystemExit\<close>; \<^verbatim>\<open>main\<close> catches nothing), together
  with the state it leaves behind. A \<^verbatim>\<open>for\<close> loop whose body may raise stops at the first
  exception.
\<close>

fun for_each :: "('a \<Rightarrow> 's \<Rightarrow> exception option \<times> 's) \<Rightarrow> 'a list \<Rightarrow> 's \<Rightarrow> exception option \<times> 's" where
  "for_each body [] s = (None, s)"
| "for_each body (x # xs) s =
     (case body x s of
        (Some exn, s1) \<Rightarrow> (Some exn, s1)
      | (None, s1) \<Rightarrow> for_each body xs s1)"

definition unknown_category :: "string option \<Rightarrow> bool" where
  "unknown_category category =
     (case category of None \<Rightarrow> False | Some c \<Rightarrow> c \<noteq> [] \<and> c \<notin> set VALID_CATEGORIES)"

text \<open>
  The category filter of \<^verbatim>\<open>cmd_push\<close>:
  \<^verbatim>\<open>if category_filter and category != category_filter: continue\<close>.
\<close>

definition skipped_by_filter :: "string option \<Rightarrow> string \<Rightarrow> bool" where
  "skipped_by_filter category_filter category =
     (truthy category_filter \<and> Some category \<noteq> category_filter)"

subsection \<open>cmd_clone\<close>

definition entry_of_doc :: "(string \<Rightarrow> hash) \<Rightarrow> doc \<Rightarrow> entry" where
  "entry_of_doc h d =
     \<lparr>entry_id = doc_id d, entry_version = doc_version d, entry_category = doc_category d,
      entry_title = doc_title d, entry_content_hash = Some (h (content_of d))\<rparr>"

fun clone_loop :: "(string \<Rightarrow> hash) \<Rightarrow> doc list \<Rightarrow> manifest \<times> nat \<times> 'r world \<Rightarrow> manifest \<times> nat \<times> 'r world" where
  "clone_loop h [] s = s"
| "clone_loop h (d # docs) (manifest, written, w) =
     (let rel = local_path (doc_category d) (doc_title d);
          content = content_of d;
          w1 = write_local rel content w
      in clone_loop h docs (add_entry manifest rel (entry_of_doc h d), written + 1, w1))"

definition cmd_clone :: "'r remote_store \<Rightarrow> (string \<Rightarrow> hash) \<Rightarrow> string option \<Rightarrow> 'r world \<Rightarrow> exception option \<times> 'r world" where
  "cmd_clone rs h category w =
     (if is_initialized w then (Some SystemExit, print Error_already_initialized w)
      else if unknown_category category
      then (Some SystemExit, print (Error_unknown_category (case category of None \<Rightarrow> [] | Some c \<Rightarrow> c)) w)
      else case ApiClient w of
        (Some exn, w1) \<Rightarrow> (Some exn, w1)
      | (None, w1) \<Rightarrow>
          (case list_docs rs category (print Fetching_docs w1) of
             (Inl (ApiError st msg), w2) \<Rightarrow> (Some SystemExit, print (Error_message msg) w2)
           | (Inl exn, w2) \<Rightarrow> (Some exn, w2)
           | (Inr docs, w2) \<Rightarrow>
               if docs = [] then (None, print No_docs_found w2)
               else (case clone_loop h docs ([], 0, w2) of
                       (manifest, written, w3) \<Rightarrow>
                         (None, print Edit_hint (print (Cloned written) (save manifest w3))))))"

subsection \<open>cmd_pull\<close>

text \<open>The local variables of \<^verbatim>\<open>cmd_pull\<close> (manifest, updated, errors) and of \<^verbatim>\<open>cmd_push\<close>
  (all five); \<open>manifest_var\<close> is the dict the variable \<^verbatim>\<open>manifest\<close> holds.\<close>

record locals =
  manifest_var :: manifest
  created :: nat
  updated :: nat
  deleted_count :: nat
  errors :: nat

definition initial_locals :: "manifest \<Rightarrow> locals" where
  "initial_locals m = \<lparr>manifest_var = m, created = 0, updated = 0, deleted_count = 0, errors = 0\<rparr>"

fun pull_item :: "'r remote_store \<Rightarrow> (string \<Rightarrow> hash) \<Rightarrow> path \<times> entry \<Rightarrow> locals \<times> 'r world \<Rightarrow> exception option \<times> locals \<times> 'r world" where
  "pull_item rs h (rel_path, e) (v, w) =
     (case get_doc rs (entry_id e) w of
        (Inl (ApiError st msg), w1) \<Rightarrow>
          (None, v\<lparr>errors := errors v + 1\<rparr>, print (Error_pulling rel_path msg) w1)
      | (Inl exn, w1) \<Rightarrow> (Some exn, v, w1)
      | (Inr d, w1) \<Rightarrow>
          (let content = content_of d;
               w2 = write_local rel_path content w1;
               manifest1 = mutate_entry (manifest_var v) rel_path
                 (\<lambda>e0. e0\<lparr>entry_version := doc_version d, entry_title := doc_title d,
                          entry_category := doc_category d,
                          entry_content_hash := Some (h content)\<rparr>)
           in (None, v\<lparr>manifest_var := manifest1, updated := updated v + 1\<rparr>, w2)))"

definition cmd_pull :: "'r remote_store \<Rightarrow> (string \<Rightarrow> hash) \<Rightarrow> 'r world \<Rightarrow> exception option \<times> 'r world" where
  "cmd_pull rs h w =
     (if \<not> is_initialized w then (Some SystemExit, print Error_no_manifest w)
      else let manifest0 = load w in
        if manifest0 = [] then (None, print Nothing_to_pull w)
        else case ApiClient w of
          (Some exn, w1) \<Rightarrow> (Some exn, w1)
        | (None, w1) \<Rightarrow>
            (case for_each (pull_item rs h) manifest0 (initial_locals manifest0, w1) of
               (Some exn, v, w2) \<Rightarrow> (Some exn, w2)
             | (None, v, w2) \<Rightarrow>
                 (None, print (Pulled (updated v) (errors v)) (save (manifest_var v) w2))))"

subsection \<open>cmd_status\<close>

text \<open>
  \<^verbatim>\<open>tracked\<close> and \<^verbatim>\<open>local_files\<close> are Python sets: the loops below visit them in the order
  of the manifest and of the file listing, and the printed lists are sorted.
\<close>

fun status_tracked :: "(string \<Rightarrow> hash) \<Rightarrow> manifest \<Rightarrow> 'r world \<Rightarrow> path list \<Rightarrow> path list \<times> path list \<Rightarrow> exception + path list \<times> path list" where
  "status_tracked h manifest w [] acc = Inr acc"
| "status_tracked h manifest w (rel_path # rest) (modified, deleted) =
     (case read_local rel_path w of
        Inl exn \<Rightarrow> Inl exn
      | Inr None \<Rightarrow> status_tracked h manifest w rest (modified, deleted @ [rel_path])
      | Inr (Some content) \<Rightarrow>
          (case map_of manifest rel_path of
             None \<Rightarrow> Inl KeyError
           | Some e \<Rightarrow>
               (case entry_content_hash e of
                  Some stored_hash \<Rightarrow>
                    if h content \<noteq> stored_hash
                    then status_tracked h manifest w rest (modified @ [rel_path], deleted)
                    else status_tracked h manifest w rest (modified, deleted)
                | None \<Rightarrow> status_tracked h manifest w rest (modified, deleted))))"

definition status_sets :: "(string \<Rightarrow> hash) \<Rightarrow> manifest \<Rightarrow> 'r world \<Rightarrow> exception + path list \<times> path list \<times> path list" where
  "status_sets h manifest w =
     (let local_files = rglob_md w;
          tracked = remdups (map fst manifest)
      in case status_tracked h manifest w tracked ([], []) of
           Inl exn \<Rightarrow> Inl exn
         | Inr (modified, deleted) \<Rightarrow>
             Inr (filter (\<lambda>rel_path. rel_path \<notin> set tracked) local_files, modified, deleted))"

definition cmd_status :: "(string \<Rightarrow> hash) \<Rightarrow> 'r world \<Rightarrow> exception option \<times> 'r world" where
  "cmd_status h w =
     (if \<not> is_initialized w then (Some SystemExit, print Error_no_manifest w)
      else case status_sets h (load w) w of
        Inl exn \<Rightarrow> (Some exn, w)
      | Inr (new_files, modified, deleted) \<Rightarrow>
          if new_files = [] \<and> modified = [] \<and> deleted = []
          then (None, print Nothing_to_push w)
          else (None, print (Status_report (sort new_files) (sort modified) (sort deleted)) w))"

subsection \<open>cmd_push\<close>

record push_args =
  arg_message :: "string option"
  arg_category :: "string option"
  arg_delete :: bool

fun push_tracked_item :: "'r remote_store \<Rightarrow> (string \<Rightarrow> hash) \<Rightarrow> push_args \<Rightarrow> path \<times> entry \<Rightarrow> locals \<times> 'r world \<Rightarrow> exception option \<times> locals \<times> 'r world" where
  "push_tracked_item rs h args (rel_path, e) (v, w) =
     (if skipped_by_filter (arg_category args) (entry_category e) then (None, v, w)
      else case read_local rel_path w of
        Inl exn \<Rightarrow> (Some exn, v, w)
      | Inr None \<Rightarrow>
          (if arg_delete args then
             (case delete_doc rs (entry_id e) w of
                (Inr u, w1) \<Rightarrow>
                  (None,
                   v\<lparr>manifest_var := remove_entry (manifest_var v) rel_path,
                     deleted_count := deleted_count v + 1\<rparr>,
                   print (Deleted rel_path) w1)
              | (Inl (ApiError st msg), w1) \<Rightarrow>
                  (None, v\<lparr>errors := errors v + 1\<rparr>, print (Error_deleting rel_path msg) w1)
              | (Inl exn, w1) \<Rightarrow> (Some exn, v, w1))
           else (None, v, print (Skipped rel_path) w))
      | Inr (Some content) \<Rightarrow>
          (let stored_hash = entry_content_hash e;
               current_hash = h content
           in if stored_hash = Some current_hash then (None, v, w)
              else case get_doc rs (entry_id e) w of
                (Inl (ApiError st msg), w1) \<Rightarrow>
                  (None, v\<lparr>errors := errors v + 1\<rparr>, print (Error_checking rel_path msg) w1)
              | (Inl exn, w1) \<Rightarrow> (Some exn, v, w1)
              | (Inr remote_doc, w1) \<Rightarrow>
                  (let remote_version = doc_version remote_doc;
                       local_version = entry_version e
                   in if remote_version \<noteq> local_version
                      then (None, v\<lparr>errors := errors v + 1\<rparr>,
                            print (Conflict rel_path local_version remote_version) w1)
                      else case update_doc rs (entry_id e) (entry_title e) content
                                  (entry_category e) (arg_message args) w1 of
                        (Inr d, w2) \<Rightarrow>
                          (let manifest1 = mutate_entry (manifest_var v) rel_path
                                 (\<lambda>e0. e0\<lparr>entry_version := doc_version d,
                                          entry_content_hash := Some current_hash\<rparr>)
                           in (None, v\<lparr>manifest_var := manifest1, updated := updated v + 1\<rparr>,
                               print (Updated rel_path (doc_version d)) (save manifest1 w2)))
                      | (Inl (ApiError st msg), w2) \<Rightarrow>
                          (None, v\<lparr>errors := errors v + 1\<rparr>,
                           print (Error_updating rel_path msg) w2)
                      | (Inl exn, w2) \<Rightarrow> (Some exn, v, w2))))"

definition inferred_category :: "path \<Rightarrow> string" where
  "inferred_category p =
     (let parts = drop 1 (path_parts p);
          inferred = (if length parts > 1 then hd parts else ''general'')
      in if inferred \<notin> set VALID_CATEGORIES then ''general'' else inferred)"

fun push_untracked_item :: "'r remote_store \<Rightarrow> (string \<Rightarrow> hash) \<Rightarrow> push_args \<Rightarrow> path \<Rightarrow> locals \<times> 'r world \<Rightarrow> exception option \<times> locals \<times> 'r world" where
  "push_untracked_item rs h args rel_path (v, w) =
     (if map_of (manifest_var v) rel_path \<noteq> None then (None, v, w)
      else let category = inferred_category rel_path
        in if skipped_by_filter (arg_category args) category then (None, v, w)
           else case read_text rel_path w of
             Inl exn \<Rightarrow> (Some exn, v, w)
           | Inr content \<Rightarrow>
               (let title = path_name rel_path
                in case create_doc rs title content category w of
                  (Inr d, w1) \<Rightarrow>
                    (let current_hash = h content;
                         manifest1 = add_entry (manifest_var v) rel_path
                           \<lparr>entry_id = doc_id d, entry_version = doc_version d,
                            entry_category = doc_category d, entry_title = doc_title d,
                            entry_content_hash = Some current_hash\<rparr>
                     in (None, v\<lparr>manifest_var := manifest1, created := created v + 1\<rparr>,
                         print (Created rel_path) (save manifest1 w1)))
                | (Inl (ApiError st msg), w1) \<Rightarrow>
                    (None, v\<lparr>errors := errors v + 1\<rparr>, print (Error_creating rel_path msg) w1)
                | (Inl exn, w1) \<Rightarrow> (Some exn, v, w1)))"

definition push_summary :: "locals \<Rightarrow> 'r world \<Rightarrow> 'r world" where
  "push_summary v w =
     (if created v = 0 \<and> updated v = 0 \<and> deleted_count v = 0 \<and> errors v = 0
      then print Nothing_to_push w
      else print (Push_complete (created v) (updated v) (deleted_count v) (errors v)) w)"

definition cmd_push :: "'r remote_store \<Rightarrow> (string \<Rightarrow> hash) \<Rightarrow> push_args \<Rightarrow> 'r world \<Rightarrow> exception option \<times> 'r world" where
  "cmd_push rs h args w =
     (if \<not> is_initialized w then (Some SystemExit, print Error_no_manifest w)
      else let manifest0 = load w in
        if unknown_category (arg_category args)
        then (Some SystemExit,
              print (Error_unknown_category
                       (case arg_category args of None \<Rightarrow> [] | Some c \<Rightarrow> c)) w)
        else case ApiClient w of
          (Some exn, w1) \<Rightarrow> (Some exn, w1)
        | (None, w1) \<Rightarrow>
            (case for_each (push_tracked_item rs h args) manifest0
                    (initial_locals manifest0, w1) of
               (Some exn, v, w2) \<Rightarrow> (Some exn, w2)
             | (None, v, w2) \<Rightarrow>
                 (case for_each (push_untracked_item rs h args)
                         (sort_key path_parts (rglob_md w2)) (v, w2) of
                    (Some exn, v3, w3) \<Rightarrow> (Some exn, w3)
                  | (None, v3, w3) \<Rightarrow> (None, push_summary v3 w3))))"

section \<open>Sample inputs\<close>

text \<open>
  Concrete inputs on which the commands are evaluated below: an in-memory Remote Store that
  keeps a list of documents, a stand-in hash (the content itself), and constructors for
  documents, entries, states and arguments. They are inputs, not part of the program.
\<close>

definition sample_store :: "doc list remote_store" where
  "sample_store =
     \<lparr>list_r = (\<lambda>category docs.
        (Ok_response (case category of None \<Rightarrow> docs
                      | Some c \<Rightarrow> filter (\<lambda>d. doc_category d = c) docs), docs)),
      get_r = (\<lambda>d_id docs.
        (case find (\<lambda>d. doc_id d = d_id) docs of
           None \<Rightarrow> Error_response 404 ''not found''
         | Some d \<Rightarrow> Ok_response d, docs)),
      create_r = (\<lambda>title content category docs.
        (let d = \<lparr>doc_id = ''new-'' @ title, doc_version = 1, doc_category = category,
                  doc_title = title, doc_content = Some content\<rparr>
         in (Ok_response d, docs @ [d]))),
      update_r = (\<lambda>d_id title content category reason docs.
        (case find (\<lambda>d. doc_id d = d_id) docs of
           None \<Rightarrow> (Error_response 404 ''not found'', docs)
         | Some d \<Rightarrow>
             (let d1 = d\<lparr>doc_version := doc_version d + 1, doc_category := category,
                         doc_title := title, doc_content := Some content\<rparr>
              in (Ok_response d1, map (\<lambda>x. if doc_id x = d_id then d1 else x) docs)))),
      delete_r = (\<lambda>d_id docs.
        (case find (\<lambda>d. doc_id d = d_id) docs of
           None \<Rightarrow> (Error_response 404 ''not found'', docs)
         | Some d \<Rightarrow> (Ok_response (), filter (\<lambda>x. doc_id x \<noteq> d_id) docs)))\<rparr>"

definition sample_doc :: "string \<Rightarrow> int \<Rightarrow> string \<Rightarrow> string \<Rightarrow> string \<Rightarrow> doc" where
  "sample_doc d_id version category title content =
     \<lparr>doc_id = d_id, doc_version = version, doc_category = category, doc_title = title,
      doc_content = Some content\<rparr>"

definition sample_entry :: "string \<Rightarrow> int \<Rightarrow> string \<Rightarrow> string \<Rightarrow> hash option \<Rightarrow> entry" where
  "sample_entry d_id version category title stored_hash =
     \<lparr>entry_id = d_id, entry_version = version, entry_category = category,
      entry_title = title, entry_content_hash = stored_hash\<rparr>"

definition sample_world :: "(path \<times> node) list \<Rightarrow> manifest option \<Rightarrow> 'r \<Rightarrow> 'r world" where
  "sample_world fs mf r =
     \<lparr>api_key = ''mdlm_key'', api_url = ''https://markdownlm.com'', files = fs,
      manifest_file = mf, manifest_writes = [], store = r, requests = [], printed = []\<rparr>"

definition sample_hash :: "string \<Rightarrow> hash" where
  "sample_hash content = content"

definition sample_args :: "string option \<Rightarrow> bool \<Rightarrow> push_args" where
  "sample_args category_filter delete_flag =
     \<lparr>arg_message = None, arg_category = category_filter, arg_delete = delete_flag\<rparr>"

text \<open>The sample store, except that it answers the fetch of document \<^verbatim>\<open>d2\<close> with 403.\<close>

definition forbidden_store :: "doc list remote_store" where
  "forbidden_store =
     sample_store\<lparr>get_r := (\<lambda>d_id docs.
        if d_id = ''d2'' then (Error_response 403 ''forbidden'', docs)
        else get_r sample_store d_id docs)\<rparr>"

text \<open>
  A directory with one unchanged, one modified and one deleted tracked file, one tracked
  file whose entry has no stored hash, and one untracked file.
\<close>

definition status_example :: "doc list world" where
  "status_example =
     sample_world
       [(''knowledge/general/a.md'', Text ''A''),
        (''knowledge/general/b.md'', Text ''B2''),
        (''knowledge/general/l.md'', Text ''L''),
        (''knowledge/notes.md'', Text ''N'')]
       (Some [(''knowledge/general/a.md'', sample_entry ''d1'' 1 ''general'' ''a.md'' (Some ''A'')),
              (''knowledge/general/b.md'', sample_entry ''d2'' 1 ''general'' ''b.md'' (Some ''B'')),
              (''knowledge/general/c.md'', sample_entry ''d3'' 1 ''general'' ''c.md'' (Some ''C'')),
              (''knowledge/general/l.md'', sample_entry ''d4'' 1 ''general'' ''l.md'' None)])
       []"

section \<open>Loops\<close>

lemma for_each_Cons_None:
  "body x s = (None, s1) \<Longrightarrow> for_each body (x # xs) s = for_each body xs s1"
  by simp

lemma for_each_Cons_Some:
  "body x s = (Some exn, s1) \<Longrightarrow> for_each body (x # xs) s = (Some exn, s1)"
  by simp

lemma for_each_append:
  "for_each body (xs @ ys) s =
     (case for_each body xs s of
        (Some exn, s1) \<Rightarrow> (Some exn, s1)
      | (None, s1) \<Rightarrow> for_each body ys s1)"
  by (induction xs arbitrary: s) (auto split: prod.splits option.splits)

section \<open>Reading files\<close>


lemma read_local_Unreadable:
  "map_of (files w) p = Some Unreadable \<Longrightarrow> read_local p w = Inl ReadError"
  by (simp add: read_local_def path_exists_def read_text_def)

lemma read_local_absent:
  "\<not> path_exists p w \<Longrightarrow> read_local p w = Inr None"
  by (simp add: read_local_def)

lemma read_local_files: "files w1 = files w2 \<Longrightarrow> read_local p w1 = read_local p w2"
  by (simp add: read_local_def path_exists_def read_text_def directories_def)

section \<open>Push: deletions, conflicts\<close>

text \<open>
  Claim C1. For a tracked entry whose local file is missing, push with the delete flag,
  when the remote delete succeeds, should remove the entry and save the manifest at once, so
  that the manifest on disk no longer holds the entry. Evaluated on one such entry: the
  delete request is sent and the entry leaves the manifest in memory, but \<^verbatim>\<open>save\<close> is never
  called (\<open>manifest_writes\<close> stays empty) and the manifest file still holds the entry when
  push returns.
\<close>

theorem push_delete_is_not_saved:
  "cmd_push sample_store sample_hash (sample_args None True)
     (sample_world []
        (Some [(''knowledge/general/a.md'', sample_entry ''d1'' 1 ''general'' ''a.md'' (Some ''A''))])
        [sample_doc ''d1'' 1 ''general'' ''a.md'' ''A''])
   = (None,
      \<lparr>api_key = ''mdlm_key'', api_url = ''https://markdownlm.com'', files = [],
       manifest_file =
         Some [(''knowledge/general/a.md'', sample_entry ''d1'' 1 ''general'' ''a.md'' (Some ''A''))],
       manifest_writes = [], store = [], requests = [Delete_doc ''d1''],
       printed = [Deleted ''knowledge/general/a.md'', Push_complete 0 0 1 0]\<rparr>)"
  by code_simp

text \<open>
  The same holds on every input: whatever the Remote Store answers, the step for a tracked
  entry whose file is missing leaves the manifest file as it was.
\<close>

lemma push_missing_file_never_saves:
  assumes "read_local rel_path w = Inr None"
    and "push_tracked_item rs h args (rel_path, e) (v, w) = (x, v1, w1)"
  shows "manifest_file w1 = manifest_file w \<and> manifest_writes w1 = manifest_writes w"
proof -
  obtain y w2 where d: "delete_doc rs (entry_id e) w = (y, w2)"
    by (cases "delete_doc rs (entry_id e) w")
  then have "manifest_file w2 = manifest_file w \<and> manifest_writes w2 = manifest_writes w"
    by (auto simp: delete_doc_def handle_response_def sent_def print_def
        split: prod.splits response.splits if_splits)
  with assms d show ?thesis
    by (auto simp: print_def split: if_splits sum.splits exception.splits)
qed

text \<open>
  Claim C2. During push, for a tracked entry that reaches the version check (it passes the
  category filter, its file is read and the hash of the content differs from the stored
  hash): if the fetched remote version differs from the entry's version, push prints the
  conflict, sends nothing but the fetch (no update), leaves the manifest in memory and on
  disk as they were, counts one error, and goes on with the remaining items.
\<close>

theorem push_conflict:
  assumes "\<not> skipped_by_filter (arg_category args) (entry_category e)"
    and "read_local rel_path w = Inr (Some content)"
    and "entry_content_hash e \<noteq> Some (h content)"
    and "get_r rs (entry_id e) (store w) = (Ok_response remote_doc, r')"
    and "doc_version remote_doc \<noteq> entry_version e"
  shows "for_each (push_tracked_item rs h args) ((rel_path, e) # rest) (v, w) =
         for_each (push_tracked_item rs h args) rest
           (v\<lparr>errors := errors v + 1\<rparr>,
            w\<lparr>store := r',
              requests := requests w @ [Get_doc (entry_id e)],
              printed := printed w @
                [Conflict rel_path (entry_version e) (doc_version remote_doc)]\<rparr>)"
proof -
  have "push_tracked_item rs h args (rel_path, e) (v, w) =
          (None, v\<lparr>errors := errors v + 1\<rparr>,
            w\<lparr>store := r',
              requests := requests w @ [Get_doc (entry_id e)],
              printed := printed w @
                [Conflict rel_path (entry_version e) (doc_version remote_doc)]\<rparr>)"
    using assms by (simp add: get_doc_def handle_response_def sent_def print_def)
  then show ?thesis by (rule for_each_Cons_None)
qed

theorem push_conflict_witness:
  "for_each (push_tracked_item sample_store sample_hash (sample_args None False))
     [(''knowledge/general/a.md'', sample_entry ''d1'' 1 ''general'' ''a.md'' (Some ''A'')),
      (''knowledge/general/b.md'', sample_entry ''d2'' 1 ''general'' ''b.md'' (Some ''B''))]
     (initial_locals [],
      sample_world [(''knowledge/general/a.md'', Text ''A2''), (''knowledge/general/b.md'', Text ''B'')] None
        [sample_doc ''d1'' 2 ''general'' ''a.md'' ''A''])
   = (None, (initial_locals [])\<lparr>errors := 1\<rparr>,
      (sample_world [(''knowledge/general/a.md'', Text ''A2''), (''knowledge/general/b.md'', Text ''B'')] None
        [sample_doc ''d1'' 2 ''general'' ''a.md'' ''A''])
      \<lparr>requests := [Get_doc ''d1''],
        printed := [Conflict ''knowledge/general/a.md'' 1 2]\<rparr>)"
proof -
  let ?w = "sample_world [(''knowledge/general/a.md'', Text ''A2''), (''knowledge/general/b.md'', Text ''B'')] None
        [sample_doc ''d1'' 2 ''general'' ''a.md'' ''A'']"
  let ?e = "sample_entry ''d1'' 1 ''general'' ''a.md'' (Some ''A'')"
  let ?args = "sample_args None False"
  have 1: "\<not> skipped_by_filter (arg_category ?args) (entry_category ?e)"
    by (simp add: skipped_by_filter_def sample_args_def truthy_def)
  have 2: "read_local ''knowledge/general/a.md'' ?w = Inr (Some ''A2'')"
    by code_simp
  have 3: "entry_content_hash ?e \<noteq> Some (sample_hash ''A2'')"
    by (simp add: sample_entry_def sample_hash_def)
  have 4: "get_r sample_store (entry_id ?e) (store ?w)
             = (Ok_response (sample_doc ''d1'' 2 ''general'' ''a.md'' ''A''), [sample_doc ''d1'' 2 ''general'' ''a.md'' ''A''])"
    by (simp add: sample_store_def sample_entry_def sample_world_def sample_doc_def)
  have 5: "doc_version (sample_doc ''d1'' 2 ''general'' ''a.md'' ''A'') \<noteq> entry_version ?e"
    by (simp add: sample_doc_def sample_entry_def)
  show ?thesis
    unfolding push_conflict [where h = sample_hash and content = "''A2''", OF 1 2 3 4 5]
    by code_simp
qed

section \<open>Push with nothing to do\<close>






section \<open>Push and files that cannot be read\<close>

text \<open>
  Claim C8, as stated: during push a tracked file that exists but cannot be read is handled
  like an absent file, and the batch continues. This fails: \<^verbatim>\<open>_read_local\<close> returns
  \<^verbatim>\<open>None\<close> only when the path does not exist; for a path that exists, \<^verbatim>\<open>read_text\<close>
  raises and nothing in \<^verbatim>\<open>cmd_push\<close> catches it. With the delete flag set, one unreadable
  tracked file and one absent tracked file, push ends with the exception: no delete is sent
  for either, nothing is printed.
\<close>

theorem push_unreadable_counterexample:
  "cmd_push sample_store sample_hash (sample_args None True)
     (sample_world [(''knowledge/general/a.md'', Unreadable)]
        (Some [(''knowledge/general/a.md'', sample_entry ''d1'' 1 ''general'' ''a.md'' (Some ''A'')),
               (''knowledge/general/b.md'', sample_entry ''d2'' 1 ''general'' ''b.md'' (Some ''B''))])
        [sample_doc ''d1'' 1 ''general'' ''a.md'' ''A'', sample_doc ''d2'' 1 ''general'' ''b.md'' ''B''])
   = (Some ReadError,
      sample_world [(''knowledge/general/a.md'', Unreadable)]
        (Some [(''knowledge/general/a.md'', sample_entry ''d1'' 1 ''general'' ''a.md'' (Some ''A'')),
               (''knowledge/general/b.md'', sample_entry ''d2'' 1 ''general'' ''b.md'' (Some ''B''))])
        [sample_doc ''d1'' 1 ''general'' ''a.md'' ''A'', sample_doc ''d2'' 1 ''general'' ''b.md'' ''B''])"
  by code_simp

text \<open>
  Claim C8, amended. During push, a tracked file that passes the category filter and exists
  but cannot be read makes the read raise; the exception leaves the loop at that item,
  whatever the delete flag: nothing is sent or printed for it and the remaining items are
  not processed; and push itself ends with that exception in the state the earlier items
  left, without a summary. Only an absent file follows the deleted-locally branch: without
  the delete flag it is reported as skipped, with it (and a successful remote delete) it is
  deleted remotely and dropped from the manifest in memory, and in both cases the loop goes
  on.
\<close>

theorem push_unreadable_file:
  assumes "\<not> skipped_by_filter (arg_category args) (entry_category e)"
  shows "(map_of (files w) rel_path = Some Unreadable \<longrightarrow>
            for_each (push_tracked_item rs h args) ((rel_path, e) # rest) (v, w)
              = (Some ReadError, v, w))
       \<and> (\<not> path_exists rel_path w \<and> \<not> arg_delete args \<longrightarrow>
            for_each (push_tracked_item rs h args) ((rel_path, e) # rest) (v, w)
              = for_each (push_tracked_item rs h args) rest (v, print (Skipped rel_path) w))
       \<and> (\<not> path_exists rel_path w \<and> arg_delete args
            \<and> delete_r rs (entry_id e) (store w) = (Ok_response (), r') \<longrightarrow>
            for_each (push_tracked_item rs h args) ((rel_path, e) # rest) (v, w)
              = for_each (push_tracked_item rs h args) rest
                  (v\<lparr>manifest_var := remove_entry (manifest_var v) rel_path,
                     deleted_count := deleted_count v + 1\<rparr>,
                   w\<lparr>store := r', requests := requests w @ [Delete_doc (entry_id e)],
                     printed := printed w @ [Deleted rel_path]\<rparr>))
       \<and> (is_initialized w0 \<and> \<not> unknown_category (arg_category args)
            \<and> api_key w0 \<noteq> [] \<and> prefix ''https://'' (api_url w0)
            \<and> load w0 = earlier @ (rel_path, e) # rest
            \<and> for_each (push_tracked_item rs h args) earlier (initial_locals (load w0), w0)
                = (None, v, w)
            \<and> map_of (files w) rel_path = Some Unreadable \<longrightarrow>
            cmd_push rs h args w0 = (Some ReadError, w))"
proof (intro conjI impI)
  assume "map_of (files w) rel_path = Some Unreadable"
  then show "for_each (push_tracked_item rs h args) ((rel_path, e) # rest) (v, w)
              = (Some ReadError, v, w)"
    using assms by (simp add: read_local_Unreadable)
next
  assume "\<not> path_exists rel_path w \<and> \<not> arg_delete args"
  then show "for_each (push_tracked_item rs h args) ((rel_path, e) # rest) (v, w)
              = for_each (push_tracked_item rs h args) rest (v, print (Skipped rel_path) w)"
    using assms by (simp add: read_local_absent)
next
  assume "\<not> path_exists rel_path w \<and> arg_delete args
            \<and> delete_r rs (entry_id e) (store w) = (Ok_response (), r')"
  then show "for_each (push_tracked_item rs h args) ((rel_path, e) # rest) (v, w)
              = for_each (push_tracked_item rs h args) rest
                  (v\<lparr>manifest_var := remove_entry (manifest_var v) rel_path,
                     deleted_count := deleted_count v + 1\<rparr>,
                   w\<lparr>store := r', requests := requests w @ [Delete_doc (entry_id e)],
                     printed := printed w @ [Deleted rel_path]\<rparr>)"
    using assms
    by (simp add: read_local_absent delete_doc_def handle_response_def sent_def print_def)
next
  assume a: "is_initialized w0 \<and> \<not> unknown_category (arg_category args)
            \<and> api_key w0 \<noteq> [] \<and> prefix ''https://'' (api_url w0)
            \<and> load w0 = earlier @ (rel_path, e) # rest
            \<and> for_each (push_tracked_item rs h args) earlier (initial_locals (load w0), w0)
                = (None, v, w)
            \<and> map_of (files w) rel_path = Some Unreadable"
  then have item: "push_tracked_item rs h args (rel_path, e) (v, w) = (Some ReadError, v, w)"
    using assms by (simp add: read_local_Unreadable)
  from a have loop: "for_each (push_tracked_item rs h args) earlier
      (initial_locals (load w0), w0) = (None, v, w)"
    and m: "load w0 = earlier @ (rel_path, e) # rest"
    by blast+
  have "for_each (push_tracked_item rs h args) (earlier @ (rel_path, e) # rest)
          (initial_locals (load w0), w0)
        = for_each (push_tracked_item rs h args) ((rel_path, e) # rest) (v, w)"
    unfolding for_each_append loop by simp
  also have "\<dots> = (Some ReadError, v, w)"
    using item by (rule for_each_Cons_Some)
  finally have "for_each (push_tracked_item rs h args) (load w0) (initial_locals (load w0), w0)
               = (Some ReadError, v, w)"
    unfolding m [symmetric] .
  moreover from a have "is_initialized w0" "\<not> unknown_category (arg_category args)"
    "api_key w0 \<noteq> []" "prefix ''https://'' (api_url w0)" by blast+
  ultimately show "cmd_push rs h args w0 = (Some ReadError, w)"
    by (simp add: cmd_push_def ApiClient_def Let_def)
qed

theorem push_unreadable_file_witness:
  "\<not> skipped_by_filter (arg_category (sample_args None True)) (entry_category (sample_entry ''d1'' 1 ''general'' ''a.md'' (Some ''A'')))
   \<and> for_each (push_tracked_item sample_store sample_hash (sample_args None True))
        [(''knowledge/general/a.md'', sample_entry ''d1'' 1 ''general'' ''a.md'' (Some ''A''))]
        (initial_locals [], sample_world [(''knowledge/general/a.md'', Unreadable)] None [])
       = (Some ReadError, initial_locals [],
          sample_world [(''knowledge/general/a.md'', Unreadable)] None [])
   \<and> \<not> skipped_by_filter (arg_category (sample_args None False)) (entry_category (sample_entry ''d1'' 1 ''general'' ''a.md'' (Some ''A'')))
   \<and> \<not> path_exists ''knowledge/general/a.md'' (sample_world [] None ([] :: doc list))
   \<and> for_each (push_tracked_item sample_store sample_hash (sample_args None False))
        [(''knowledge/general/a.md'', sample_entry ''d1'' 1 ''general'' ''a.md'' (Some ''A''))]
        (initial_locals [], sample_world [] None [])
       = (None, initial_locals [],
          (sample_world [] None [])\<lparr>printed := [Skipped ''knowledge/general/a.md'']\<rparr>)
   \<and> for_each (push_tracked_item sample_store sample_hash (sample_args None True))
        [(''knowledge/general/a.md'', sample_entry ''d1'' 1 ''general'' ''a.md'' (Some ''A''))]
        (initial_locals [(''knowledge/general/a.md'', sample_entry ''d1'' 1 ''general'' ''a.md'' (Some ''A''))],
         sample_world [] None [sample_doc ''d1'' 1 ''general'' ''a.md'' ''A''])
       = (None, (initial_locals [])\<lparr>deleted_count := 1\<rparr>,
          (sample_world [] None [])
            \<lparr>requests := [Delete_doc ''d1''],
              printed := [Deleted ''knowledge/general/a.md'']\<rparr>)
   \<and> cmd_push sample_store sample_hash (sample_args None False)
        (sample_world [(''knowledge/general/a.md'', Unreadable)]
           (Some [(''knowledge/general/b.md'', sample_entry ''d2'' 1 ''general'' ''b.md'' (Some ''B'')),
                  (''knowledge/general/a.md'', sample_entry ''d1'' 1 ''general'' ''a.md'' (Some ''A''))])
           [])
       = (Some ReadError,
          (sample_world [(''knowledge/general/a.md'', Unreadable)]
           (Some [(''knowledge/general/b.md'', sample_entry ''d2'' 1 ''general'' ''b.md'' (Some ''B'')),
                  (''knowledge/general/a.md'', sample_entry ''d1'' 1 ''general'' ''a.md'' (Some ''A''))])
           [])\<lparr>printed := [Skipped ''knowledge/general/b.md'']\<rparr>)"
proof -
  let ?e = "sample_entry ''d1'' 1 ''general'' ''a.md'' (Some ''A'')"
  let ?eb = "sample_entry ''d2'' 1 ''general'' ''b.md'' (Some ''B'')"
  let ?p = "''knowledge/general/a.md''" and ?b = "''knowledge/general/b.md''"
  let ?w0 = "sample_world [(?p, Unreadable)] (Some [(?b, ?eb), (?p, ?e)]) ([] :: doc list)"
  have f1: "\<not> skipped_by_filter (arg_category (sample_args None True)) (entry_category ?e)"
    by (simp add: skipped_by_filter_def sample_args_def truthy_def)
  have f2: "\<not> skipped_by_filter (arg_category (sample_args None False)) (entry_category ?e)"
    by (simp add: skipped_by_filter_def sample_args_def truthy_def)
  have ne: "\<not> path_exists ?p (sample_world [] None ([] :: doc list))" by code_simp
  have ne2: "\<not> path_exists ?p (sample_world [] None [sample_doc ''d1'' 1 ''general'' ''a.md'' ''A''])"
    by code_simp
  have a: "for_each (push_tracked_item sample_store sample_hash (sample_args None True))
        [(?p, ?e)] (initial_locals [], sample_world [(?p, Unreadable)] None [])
       = (Some ReadError, initial_locals [], sample_world [(?p, Unreadable)] None [])"
    using push_unreadable_file [OF f1, where w = "sample_world [(?p, Unreadable)] None []"
        and rel_path = ?p and rs = sample_store and h = sample_hash and rest = "[]"
        and v = "initial_locals []"]
    by (simp add: sample_world_def)
  have b: "for_each (push_tracked_item sample_store sample_hash (sample_args None False))
        [(?p, ?e)] (initial_locals [], sample_world [] None [])
       = (None, initial_locals [], (sample_world [] None [])\<lparr>printed := [Skipped ?p]\<rparr>)"
    using push_unreadable_file [OF f2, where w = "sample_world [] None []"
        and rel_path = ?p and rs = sample_store and h = sample_hash and rest = "[]"
        and v = "initial_locals []"] ne
    by (simp add: sample_world_def sample_args_def print_def)
  have c: "for_each (push_tracked_item sample_store sample_hash (sample_args None True))
        [(?p, ?e)]
        (initial_locals [(?p, ?e)], sample_world [] None [sample_doc ''d1'' 1 ''general'' ''a.md'' ''A''])
       = (None, (initial_locals [])\<lparr>deleted_count := 1\<rparr>,
          (sample_world [] None [])\<lparr>requests := [Delete_doc ''d1''], printed := [Deleted ?p]\<rparr>)"
    using push_unreadable_file [OF f1,
        where w = "sample_world [] None [sample_doc ''d1'' 1 ''general'' ''a.md'' ''A'']"
        and rel_path = ?p and rs = sample_store and h = sample_hash and rest = "[]"
        and v = "initial_locals [(?p, ?e)]" and r' = "[]"] ne2
    by (simp add: sample_world_def sample_args_def sample_store_def sample_entry_def
          sample_doc_def initial_locals_def remove_entry_def)
  have pre: "is_initialized ?w0 \<and> \<not> unknown_category (arg_category (sample_args None False))
      \<and> api_key ?w0 \<noteq> [] \<and> prefix ''https://'' (api_url ?w0)
      \<and> load ?w0 = [(?b, ?eb)] @ (?p, ?e) # []"
    by (simp add: is_initialized_def unknown_category_def sample_args_def sample_world_def
          load_def)
  have loop: "for_each (push_tracked_item sample_store sample_hash (sample_args None False))
        [(?b, ?eb)] (initial_locals (load ?w0), ?w0)
       = (None, initial_locals (load ?w0), ?w0\<lparr>printed := [Skipped ?b]\<rparr>)"
    by code_simp
  have unread: "map_of (files (?w0\<lparr>printed := [Skipped ?b]\<rparr>)) ?p = Some Unreadable"
    by (simp add: sample_world_def)
  have d: "cmd_push sample_store sample_hash (sample_args None False) ?w0
       = (Some ReadError, ?w0\<lparr>printed := [Skipped ?b]\<rparr>)"
    using push_unreadable_file [OF f2, where ?w0.0 = ?w0 and earlier = "[(?b, ?eb)]"
        and rel_path = ?p and rest = "[]" and rs = sample_store and h = sample_hash
        and v = "initial_locals (load ?w0)" and w = "?w0\<lparr>printed := [Skipped ?b]\<rparr>"]
      pre loop unread
    by blast
  show ?thesis using f1 f2 ne a b c d by simp
qed

section \<open>Status\<close>

lemma status_tracked_sets:
  "status_tracked h m w ps (md, dl) = Inr (md', dl') \<Longrightarrow>
     set md' = set md \<union>
       {p \<in> set ps. \<exists>c e s. read_local p w = Inr (Some c) \<and> map_of m p = Some e
                       \<and> entry_content_hash e = Some s \<and> h c \<noteq> s}
     \<and> set dl' = set dl \<union> {p \<in> set ps. read_local p w = Inr None}"
proof (induction ps arbitrary: md dl)
  case Nil
  then show ?case by simp
next
  case (Cons p ps)
  show ?case
  proof (cases "read_local p w")
    case (Inl exn)
    with Cons.prems show ?thesis by simp
  next
    case (Inr content)
    show ?thesis
    proof (cases content)
      case None
      with Inr Cons.prems have "status_tracked h m w ps (md, dl @ [p]) = Inr (md', dl')"
        by simp
      from Cons.IH [OF this] Inr None show ?thesis by auto
    next
      case (Some c)
      show ?thesis
      proof (cases "map_of m p")
        case None
        with Inr Some Cons.prems show ?thesis by simp
      next
        case (Some e)
        note e = this
        show ?thesis
        proof (cases "entry_content_hash e")
          case None
          with Inr \<open>content = Some c\<close> e Cons.prems
          have "status_tracked h m w ps (md, dl) = Inr (md', dl')" by simp
          from Cons.IH [OF this] Inr \<open>content = Some c\<close> e None show ?thesis by auto
        next
          case (Some s)
          show ?thesis
          proof (cases "h c = s")
            case True
            with Inr \<open>content = Some c\<close> e Some Cons.prems
            have "status_tracked h m w ps (md, dl) = Inr (md', dl')" by simp
            from Cons.IH [OF this] Inr \<open>content = Some c\<close> e Some True show ?thesis by auto
          next
            case False
            with Inr \<open>content = Some c\<close> e Some Cons.prems
            have "status_tracked h m w ps (md @ [p], dl) = Inr (md', dl')" by simp
            from Cons.IH [OF this] Inr \<open>content = Some c\<close> e Some False show ?thesis by auto
          qed
        qed
      qed
    qed
  qed
qed

lemma status_sets_Inr:
  assumes "status_sets h m w = Inr (new_files, modified, deleted)"
  shows "set new_files = {p \<in> set (rglob_md w). p \<notin> fst ` set m}"
    and "set modified =
       {p \<in> fst ` set m. \<exists>c e s. read_local p w = Inr (Some c) \<and> map_of m p = Some e
                       \<and> entry_content_hash e = Some s \<and> h c \<noteq> s}"
    and "set deleted = {p \<in> fst ` set m. read_local p w = Inr None}"
proof -
  from assms obtain md dl where
    st: "status_tracked h m w (remdups (map fst m)) ([], []) = Inr (md, dl)"
    and new: "new_files = filter (\<lambda>p. p \<notin> set (remdups (map fst m))) (rglob_md w)"
    and eq: "modified = md" "deleted = dl"
    by (auto simp: status_sets_def Let_def split: sum.splits prod.splits)
  from status_tracked_sets [OF st] eq
  show "set modified =
       {p \<in> fst ` set m. \<exists>c e s. read_local p w = Inr (Some c) \<and> map_of m p = Some e
                       \<and> entry_content_hash e = Some s \<and> h c \<noteq> s}"
    and "set deleted = {p \<in> fst ` set m. read_local p w = Inr None}"
    by auto
  from new show "set new_files = {p \<in> set (rglob_md w). p \<notin> fst ` set m}" by auto
qed

lemma status_tracked_files:
  "files w1 = files w2 \<Longrightarrow> status_tracked h m w1 ps acc = status_tracked h m w2 ps acc"
proof (induction ps arbitrary: acc)
  case Nil
  then show ?case by simp
next
  case (Cons p ps)
  obtain md dl where acc: "acc = (md, dl)" by (cases acc)
  have r: "read_local p w1 = read_local p w2" using Cons.prems by (rule read_local_files)
  show ?case unfolding acc
    by (simp add: r Cons.IH [OF Cons.prems] split: sum.splits option.splits)
qed

lemma status_sets_files:
  "files w1 = files w2 \<Longrightarrow> status_sets h m w1 = status_sets h m w2"
  by (simp add: status_sets_def rglob_md_def directories_def status_tracked_files [of w1 w2])

lemma cmd_status_frame:
  "files (snd (cmd_status h w)) = files w \<and> manifest_file (snd (cmd_status h w)) = manifest_file w"
  by (simp add: cmd_status_def print_def split: sum.splits prod.splits)

text \<open>
  Claim C4, as stated, says that a tracked entry with no stored content hash is in none of
  the three sets. This fails when the file of such an entry is missing: status tests for the
  file before it looks at the hash, and reports the path as deleted.
\<close>

theorem status_legacy_entry_counterexample:
  "status_sets sample_hash
     [(''knowledge/general/a.md'', sample_entry ''d1'' 1 ''general'' ''a.md'' None)]
     (sample_world []
        (Some [(''knowledge/general/a.md'', sample_entry ''d1'' 1 ''general'' ''a.md'' None)])
        ([] :: doc list))
   = Inr ([], [], [''knowledge/general/a.md''])"
  by code_simp

text \<open>
  Claim C4, amended. Whenever status computes its three sets, New, Modified and Deleted are
  pairwise disjoint; a tracked entry whose file exists is in none of them when the hash of
  the file equals the stored hash, and also when the entry has no stored hash; a tracked
  entry whose file is missing is in Deleted, with or without a stored hash; and status
  changes neither the files nor the manifest, so running it again gives the same three sets.
\<close>

theorem status_partition:
  assumes "status_sets h (load w) w = Inr (new_files, modified, deleted)"
  shows "set new_files \<inter> set modified = {}
       \<and> set new_files \<inter> set deleted = {}
       \<and> set modified \<inter> set deleted = {}
       \<and> (\<forall>p e c. map_of (load w) p = Some e \<and> read_local p w = Inr (Some c)
             \<and> (entry_content_hash e = Some (h c) \<or> entry_content_hash e = None)
             \<longrightarrow> p \<notin> set new_files \<union> set modified \<union> set deleted)
       \<and> (\<forall>p e. map_of (load w) p = Some e \<and> read_local p w = Inr None \<longrightarrow> p \<in> set deleted)
       \<and> status_sets h (load (snd (cmd_status h w))) (snd (cmd_status h w))
           = Inr (new_files, modified, deleted)"
proof -
  note sets = status_sets_Inr [OF assms]
  have 1: "set new_files \<inter> set modified = {}" using sets by auto
  have 2: "set new_files \<inter> set deleted = {}" using sets by auto
  have 3: "set modified \<inter> set deleted = {}" using sets by auto
  have 4: "\<forall>p e c. map_of (load w) p = Some e \<and> read_local p w = Inr (Some c)
             \<and> (entry_content_hash e = Some (h c) \<or> entry_content_hash e = None)
             \<longrightarrow> p \<notin> set new_files \<union> set modified \<union> set deleted"
  proof (intro allI impI)
    fix p e c
    assume a: "map_of (load w) p = Some e \<and> read_local p w = Inr (Some c)
             \<and> (entry_content_hash e = Some (h c) \<or> entry_content_hash e = None)"
    then have "(p, e) \<in> set (load w)" by (simp add: map_of_SomeD)
    then have mem: "p \<in> fst ` set (load w)" by force
    then have "p \<notin> set new_files" using sets(1) by simp
    moreover have "p \<notin> set modified"
    proof
      assume "p \<in> set modified"
      then obtain c' e' s where "read_local p w = Inr (Some c')" "map_of (load w) p = Some e'"
        "entry_content_hash e' = Some s" "h c' \<noteq> s"
        using sets(2) by auto
      with a show False by auto
    qed
    moreover have "p \<notin> set deleted" using sets(3) a by simp
    ultimately show "p \<notin> set new_files \<union> set modified \<union> set deleted" by simp
  qed
  have 5: "\<forall>p e. map_of (load w) p = Some e \<and> read_local p w = Inr None \<longrightarrow> p \<in> set deleted"
  proof (intro allI impI)
    fix p e
    assume a: "map_of (load w) p = Some e \<and> read_local p w = Inr None"
    then have "(p, e) \<in> set (load w)" by (simp add: map_of_SomeD)
    then have "p \<in> fst ` set (load w)" by force
    then show "p \<in> set deleted" using sets(3) a by simp
  qed
  have "load (snd (cmd_status h w)) = load w"
    using cmd_status_frame [of h w] by (simp add: load_def)
  moreover have "status_sets h (load w) (snd (cmd_status h w)) = status_sets h (load w) w"
    using cmd_status_frame [of h w] by (intro status_sets_files) simp
  ultimately have 6: "status_sets h (load (snd (cmd_status h w))) (snd (cmd_status h w))
           = Inr (new_files, modified, deleted)"
    using assms by simp
  show ?thesis using 1 2 3 4 5 6 by blast
qed

lemma status_example_sets:
  "status_sets sample_hash (load status_example) status_example
     = Inr ([''knowledge/notes.md''], [''knowledge/general/b.md''], [''knowledge/general/c.md''])"
  by code_simp

theorem status_partition_witness:
  "status_sets sample_hash (load status_example) status_example
     = Inr ([''knowledge/notes.md''], [''knowledge/general/b.md''], [''knowledge/general/c.md''])
   \<and> set [''knowledge/notes.md''] \<inter> set [''knowledge/general/b.md''] = {}
   \<and> set [''knowledge/notes.md''] \<inter> set [''knowledge/general/c.md''] = {}
   \<and> set [''knowledge/general/b.md''] \<inter> set [''knowledge/general/c.md''] = {}
   \<and> map_of (load status_example) ''knowledge/general/a.md''
        = Some (sample_entry ''d1'' 1 ''general'' ''a.md'' (Some ''A''))
   \<and> read_local ''knowledge/general/a.md'' status_example = Inr (Some ''A'')
   \<and> ''knowledge/general/a.md'' \<notin> set [''knowledge/notes.md''] \<union> set [''knowledge/general/b.md'']
         \<union> set [''knowledge/general/c.md'']
   \<and> map_of (load status_example) ''knowledge/general/l.md''
        = Some (sample_entry ''d4'' 1 ''general'' ''l.md'' None)
   \<and> read_local ''knowledge/general/l.md'' status_example = Inr (Some ''L'')
   \<and> ''knowledge/general/l.md'' \<notin> set [''knowledge/notes.md''] \<union> set [''knowledge/general/b.md'']
         \<union> set [''knowledge/general/c.md'']
   \<and> map_of (load status_example) ''knowledge/general/c.md''
        = Some (sample_entry ''d3'' 1 ''general'' ''c.md'' (Some ''C''))
   \<and> read_local ''knowledge/general/c.md'' status_example = Inr None
   \<and> ''knowledge/general/c.md'' \<in> set [''knowledge/general/c.md'']
   \<and> status_sets sample_hash (load (snd (cmd_status sample_hash status_example)))
         (snd (cmd_status sample_hash status_example))
       = Inr ([''knowledge/notes.md''], [''knowledge/general/b.md''], [''knowledge/general/c.md''])"
proof -
  have s: "status_sets sample_hash (load status_example) status_example
     = Inr ([''knowledge/notes.md''], [''knowledge/general/b.md''], [''knowledge/general/c.md''])"
    by (rule status_example_sets)
  have a: "map_of (load status_example) ''knowledge/general/a.md''
        = Some (sample_entry ''d1'' 1 ''general'' ''a.md'' (Some ''A''))"
    by (simp add: load_def status_example_def sample_world_def)
  have ra: "read_local ''knowledge/general/a.md'' status_example = Inr (Some ''A'')"
    by code_simp
  have l: "map_of (load status_example) ''knowledge/general/l.md''
        = Some (sample_entry ''d4'' 1 ''general'' ''l.md'' None)"
    by (simp add: load_def status_example_def sample_world_def)
  have rl: "read_local ''knowledge/general/l.md'' status_example = Inr (Some ''L'')"
    by code_simp
  have c: "map_of (load status_example) ''knowledge/general/c.md''
        = Some (sample_entry ''d3'' 1 ''general'' ''c.md'' (Some ''C''))"
    by (simp add: load_def status_example_def sample_world_def)
  have rc: "read_local ''knowledge/general/c.md'' status_example = Inr None"
    by code_simp
  note t = status_partition [OF s]
  from t have d: "set [''knowledge/notes.md''] \<inter> set [''knowledge/general/b.md''] = {}
     \<and> set [''knowledge/notes.md''] \<inter> set [''knowledge/general/c.md''] = {}
     \<and> set [''knowledge/general/b.md''] \<inter> set [''knowledge/general/c.md''] = {}"
    by blast
  from t a ra have na: "''knowledge/general/a.md'' \<notin> set [''knowledge/notes.md'']
         \<union> set [''knowledge/general/b.md''] \<union> set [''knowledge/general/c.md'']"
    by (simp add: sample_entry_def sample_hash_def)
  from t l rl have nl: "''knowledge/general/l.md'' \<notin> set [''knowledge/notes.md'']
         \<union> set [''knowledge/general/b.md''] \<union> set [''knowledge/general/c.md'']"
    by (simp add: sample_entry_def)
  from t c rc have ic: "''knowledge/general/c.md'' \<in> set [''knowledge/general/c.md'']"
    by simp
  from t have again: "status_sets sample_hash (load (snd (cmd_status sample_hash status_example)))
         (snd (cmd_status sample_hash status_example))
       = Inr ([''knowledge/notes.md''], [''knowledge/general/b.md''], [''knowledge/general/c.md''])"
    by blast
  show ?thesis using s d a ra na l rl nl c rc ic again by blast
qed

section \<open>Status and push on the same entry\<close>

lemma handle_response_requests:
  "handle_response resp w = (x, w1) \<Longrightarrow> requests w1 = requests w"
  by (auto simp: handle_response_def print_def split: response.splits if_splits)

lemma get_doc_requests:
  "get_doc rs i w = (x, w1) \<Longrightarrow> requests w1 = requests w @ [Get_doc i]"
  by (auto simp: get_doc_def sent_def split: prod.splits dest!: handle_response_requests)

lemma update_doc_requests:
  "update_doc rs i t c cat reason w = (x, w1) \<Longrightarrow>
     \<exists>rq. requests w1 = requests w @ [rq]"
  by (auto simp: update_doc_def sent_def Let_def split: prod.splits
      dest!: handle_response_requests)

lemma push_changed_fetches:
  assumes "\<not> skipped_by_filter (arg_category args) (entry_category e)"
    and "read_local rel_path w = Inr (Some content)"
    and "entry_content_hash e \<noteq> Some (h content)"
    and "push_tracked_item rs h args (rel_path, e) (v, w) = (x, v1, w1)"
  shows "prefix (requests w @ [Get_doc (entry_id e)]) (requests w1)"
proof -
  obtain y w2 where g: "get_doc rs (entry_id e) w = (y, w2)" by (cases "get_doc rs (entry_id e) w")
  then have r2: "requests w2 = requests w @ [Get_doc (entry_id e)]" by (rule get_doc_requests)
  show ?thesis
  proof (cases y)
    case (Inl exn)
    with assms g have "requests w1 = requests w2"
      by (cases exn) (auto simp: print_def)
    with r2 show ?thesis by simp
  next
    case (Inr remote_doc)
    show ?thesis
    proof (cases "doc_version remote_doc = entry_version e")
      case False
      with assms g Inr have "requests w1 = requests w2" by (auto simp: print_def)
      with r2 show ?thesis by simp
    next
      case True
      obtain z w3 where u: "update_doc rs (entry_id e) (entry_title e) content
                                  (entry_category e) (arg_message args) w2 = (z, w3)"
        by (cases "update_doc rs (entry_id e) (entry_title e) content
                                  (entry_category e) (arg_message args) w2")
      then obtain rq where r3: "requests w3 = requests w2 @ [rq]"
        using update_doc_requests by blast
      have "requests w1 = requests w3"
      proof (cases z)
        case (Inl exn)
        with assms g \<open>y = Inr remote_doc\<close> True u show ?thesis
          by (cases exn) (auto simp: print_def)
      next
        case (Inr d)
        with assms g \<open>y = Inr remote_doc\<close> True u show ?thesis
          by (auto simp: print_def save_def Let_def)
      qed
      with r2 r3 show ?thesis by simp
    qed
  qed
qed

lemma push_unchanged_sends_nothing:
  assumes "read_local rel_path w = Inr (Some content)"
    and "entry_content_hash e = Some (h content)"
  shows "push_tracked_item rs h args (rel_path, e) (v, w) = (None, v, w)"
  using assms by simp

text \<open>
  Claim C3, as stated, says that push treats a tracked entry whose file exists as changed
  exactly when status reports it as modified, also when the entry has no stored content
  hash. This fails for such an entry: status reports nothing (there is nothing to push),
  while push fetches the document and, the versions being equal, updates it.
\<close>

theorem status_push_legacy_counterexample:
  "cmd_status sample_hash
     (sample_world [(''knowledge/general/l.md'', Text ''L'')]
        (Some [(''knowledge/general/l.md'', sample_entry ''d4'' 1 ''general'' ''l.md'' None)])
        [sample_doc ''d4'' 1 ''general'' ''l.md'' ''L''])
   = (None,
      (sample_world [(''knowledge/general/l.md'', Text ''L'')]
        (Some [(''knowledge/general/l.md'', sample_entry ''d4'' 1 ''general'' ''l.md'' None)])
        [sample_doc ''d4'' 1 ''general'' ''l.md'' ''L''])\<lparr>printed := [Nothing_to_push]\<rparr>)
   \<and> cmd_push sample_store sample_hash (sample_args None False)
     (sample_world [(''knowledge/general/l.md'', Text ''L'')]
        (Some [(''knowledge/general/l.md'', sample_entry ''d4'' 1 ''general'' ''l.md'' None)])
        [sample_doc ''d4'' 1 ''general'' ''l.md'' ''L''])
   = (None,
      \<lparr>api_key = ''mdlm_key'', api_url = ''https://markdownlm.com'',
       files = [(''knowledge/general/l.md'', Text ''L'')],
       manifest_file =
         Some [(''knowledge/general/l.md'', sample_entry ''d4'' 2 ''general'' ''l.md'' (Some ''L''))],
       manifest_writes =
         [[(''knowledge/general/l.md'', sample_entry ''d4'' 2 ''general'' ''l.md'' (Some ''L''))]],
       store = [sample_doc ''d4'' 2 ''general'' ''l.md'' ''L''],
       requests = [Get_doc ''d4'', Update_doc ''d4'' ''l.md'' ''L'' ''general'' None],
       printed = [Updated ''knowledge/general/l.md'' 2, Push_complete 0 1 0 0]\<rparr>)"
  by code_simp

text \<open>
  Claim C3, amended. For a tracked entry whose file exists and that passes push's category
  filter: when the entry has a stored content hash, push treats it as changed (its first
  request for the item is the fetch of the remote document) exactly when status reports it
  as modified; when the entry has no stored content hash, status does not report it as
  modified and push treats it as changed.
\<close>

theorem status_push_classification:
  assumes "map_of m rel_path = Some e"
    and "read_local rel_path w = Inr (Some content)"
    and "status_sets h m w = Inr (new_files, modified, deleted)"
    and "\<not> skipped_by_filter (arg_category args) (entry_category e)"
    and "push_tracked_item rs h args (rel_path, e) (v, w) = (x, v1, w1)"
  shows "(entry_content_hash e \<noteq> None \<longrightarrow>
            (rel_path \<in> set modified
               \<longleftrightarrow> prefix (requests w @ [Get_doc (entry_id e)]) (requests w1)))
       \<and> (entry_content_hash e = None \<longrightarrow>
            rel_path \<notin> set modified
            \<and> prefix (requests w @ [Get_doc (entry_id e)]) (requests w1))"
proof -
  note sets = status_sets_Inr [OF assms(3)]
  have "(rel_path, e) \<in> set m" using assms(1) by (simp add: map_of_SomeD)
  then have mem: "rel_path \<in> fst ` set m" by force
  have modified_iff:
    "rel_path \<in> set modified \<longleftrightarrow> (\<exists>s. entry_content_hash e = Some s \<and> h content \<noteq> s)"
    using sets(2) mem assms(1,2) by auto
  show ?thesis
  proof (cases "entry_content_hash e")
    case None
    then have "entry_content_hash e \<noteq> Some (h content)" by simp
    from push_changed_fetches [OF assms(4) assms(2) this assms(5)] None modified_iff
    show ?thesis by simp
  next
    case (Some s)
    show ?thesis
    proof (cases "h content = s")
      case True
      then have "push_tracked_item rs h args (rel_path, e) (v, w) = (None, v, w)"
        using Some assms(2) by simp
      with assms(5) have "requests w1 = requests w" by simp
      with Some True modified_iff show ?thesis by simp
    next
      case False
      then have "entry_content_hash e \<noteq> Some (h content)" using Some by auto
      from push_changed_fetches [OF assms(4) assms(2) this assms(5)] Some False modified_iff
      show ?thesis by simp
    qed
  qed
qed

lemma status_example_push_b:
  "push_tracked_item sample_store sample_hash (sample_args None False)
     (''knowledge/general/b.md'', sample_entry ''d2'' 1 ''general'' ''b.md'' (Some ''B''))
     (initial_locals [], status_example)
   = (None, (initial_locals [])\<lparr>errors := 1\<rparr>,
      status_example\<lparr>requests := [Get_doc ''d2''],
        printed := [Error_checking ''knowledge/general/b.md'' ''not found'']\<rparr>)"
  by code_simp

lemma status_example_push_l:
  "push_tracked_item sample_store sample_hash (sample_args None False)
     (''knowledge/general/l.md'', sample_entry ''d4'' 1 ''general'' ''l.md'' None)
     (initial_locals [], status_example)
   = (None, (initial_locals [])\<lparr>errors := 1\<rparr>,
      status_example\<lparr>requests := [Get_doc ''d4''],
        printed := [Error_checking ''knowledge/general/l.md'' ''not found'']\<rparr>)"
  by code_simp

theorem status_push_classification_witness:
  "map_of (load status_example) ''knowledge/general/b.md''
     = Some (sample_entry ''d2'' 1 ''general'' ''b.md'' (Some ''B''))
   \<and> read_local ''knowledge/general/b.md'' status_example = Inr (Some ''B2'')
   \<and> entry_content_hash (sample_entry ''d2'' 1 ''general'' ''b.md'' (Some ''B'')) \<noteq> None
   \<and> ''knowledge/general/b.md'' \<in> set [''knowledge/general/b.md'']
   \<and> prefix (requests status_example @ [Get_doc ''d2''])
        (requests (status_example\<lparr>requests := [Get_doc ''d2''],
           printed := [Error_checking ''knowledge/general/b.md'' ''not found'']\<rparr>))
   \<and> map_of (load status_example) ''knowledge/general/l.md''
     = Some (sample_entry ''d4'' 1 ''general'' ''l.md'' None)
   \<and> read_local ''knowledge/general/l.md'' status_example = Inr (Some ''L'')
   \<and> entry_content_hash (sample_entry ''d4'' 1 ''general'' ''l.md'' None) = None
   \<and> ''knowledge/general/l.md'' \<notin> set [''knowledge/general/b.md'']
   \<and> prefix (requests status_example @ [Get_doc ''d4''])
        (requests (status_example\<lparr>requests := [Get_doc ''d4''],
           printed := [Error_checking ''knowledge/general/l.md'' ''not found'']\<rparr>))"
proof -
  let ?b = "''knowledge/general/b.md''" and ?l = "''knowledge/general/l.md''"
  let ?eb = "sample_entry ''d2'' 1 ''general'' ''b.md'' (Some ''B'')"
  let ?el = "sample_entry ''d4'' 1 ''general'' ''l.md'' None"
  have s: "status_sets sample_hash (load status_example) status_example
     = Inr ([''knowledge/notes.md''], [?b], [''knowledge/general/c.md''])"
    by (rule status_example_sets)
  have mb: "map_of (load status_example) ?b = Some ?eb"
    by (simp add: load_def status_example_def sample_world_def)
  have rb: "read_local ?b status_example = Inr (Some ''B2'')"
    by code_simp
  have ml: "map_of (load status_example) ?l = Some ?el"
    by (simp add: load_def status_example_def sample_world_def)
  have rl: "read_local ?l status_example = Inr (Some ''L'')"
    by code_simp
  have fb: "\<not> skipped_by_filter (arg_category (sample_args None False)) (entry_category ?eb)"
    by (simp add: skipped_by_filter_def sample_args_def truthy_def)
  have fl: "\<not> skipped_by_filter (arg_category (sample_args None False)) (entry_category ?el)"
    by (simp add: skipped_by_filter_def sample_args_def truthy_def)
  have hb: "entry_content_hash ?eb \<noteq> None" by (simp add: sample_entry_def)
  have hl: "entry_content_hash ?el = None" by (simp add: sample_entry_def)
  have idb: "entry_id ?eb = ''d2''" and idl: "entry_id ?el = ''d4''"
    by (simp_all add: sample_entry_def)
  note tb = status_push_classification [where h = sample_hash, OF mb rb s fb status_example_push_b]
  note tl = status_push_classification [where h = sample_hash, OF ml rl s fl status_example_push_l]
  from tb hb idb have b: "?b \<in> set [?b]
     \<and> prefix (requests status_example @ [Get_doc ''d2''])
        (requests (status_example\<lparr>requests := [Get_doc ''d2''],
           printed := [Error_checking ?b ''not found'']\<rparr>))"
    by simp
  from tl hl idl have l: "?l \<notin> set [?b]
     \<and> prefix (requests status_example @ [Get_doc ''d4''])
        (requests (status_example\<lparr>requests := [Get_doc ''d4''],
           printed := [Error_checking ?l ''not found'']\<rparr>))"
    by simp
  show ?thesis using mb rb hb b ml rl hl l by blast
qed

section \<open>Pull\<close>

lemma pull_item_ApiError:
  assumes "get_r rs (entry_id e) (store w) = (Error_response st msg, r')"
    and "st \<noteq> 401" and "st \<noteq> 403"
  shows "pull_item rs h (rel_path, e) (v, w) =
           (None, v\<lparr>errors := errors v + 1\<rparr>,
            w\<lparr>store := r', requests := requests w @ [Get_doc (entry_id e)],
              printed := printed w @ [Error_pulling rel_path msg]\<rparr>)"
  using assms by (simp add: get_doc_def handle_response_def sent_def print_def)

lemma pull_item_Ok:
  assumes "get_r rs (entry_id e) (store w) = (Ok_response d, r')"
  shows "pull_item rs h (rel_path, e) (v, w) =
           (None,
            v\<lparr>manifest_var := mutate_entry (manifest_var v) rel_path
                 (\<lambda>e0. e0\<lparr>entry_version := doc_version d, entry_title := doc_title d,
                          entry_category := doc_category d,
                          entry_content_hash := Some (h (content_of d))\<rparr>),
              updated := updated v + 1\<rparr>,
            w\<lparr>files := AList.update rel_path (Text (content_of d)) (files w),
              store := r', requests := requests w @ [Get_doc (entry_id e)]\<rparr>)"
  using assms by (simp add: get_doc_def handle_response_def sent_def write_local_def Let_def)

lemma pull_item_auth_failure:
  assumes "get_r rs (entry_id e) (store w) = (Error_response st msg, r')"
    and "st = 401 \<or> st = 403"
  shows "pull_item rs h (rel_path, e) (v, w) =
           (Some SystemExit, v,
            w\<lparr>store := r', requests := requests w @ [Get_doc (entry_id e)],
              printed := printed w @
                [if st = 401 then Error_authentication_failed else Error_access_denied]\<rparr>)"
  using assms by (auto simp: get_doc_def handle_response_def sent_def print_def)

lemma pull_item_never_saves:
  assumes "pull_item rs h item (v, w) = (x, v1, w1)"
  shows "manifest_writes w1 = manifest_writes w \<and> manifest_file w1 = manifest_file w"
proof -
  obtain rel_path e where item: "item = (rel_path, e)" by (cases item)
  obtain y w2 where g: "get_doc rs (entry_id e) w = (y, w2)"
    by (cases "get_doc rs (entry_id e) w")
  then have "manifest_writes w2 = manifest_writes w \<and> manifest_file w2 = manifest_file w"
    by (auto simp: get_doc_def handle_response_def sent_def print_def
        split: prod.splits response.splits if_splits)
  with assms item g show ?thesis
    by (auto simp: print_def write_local_def Let_def split: sum.splits exception.splits)
qed

lemma pull_loop_never_saves:
  "for_each (pull_item rs h) items (v, w) = (x, v1, w1) \<Longrightarrow>
     manifest_writes w1 = manifest_writes w \<and> manifest_file w1 = manifest_file w"
proof (induction items arbitrary: v w)
  case Nil
  then show ?case by simp
next
  case (Cons item items)
  obtain y v2 w2 where step: "pull_item rs h item (v, w) = (y, v2, w2)"
    by (cases "pull_item rs h item (v, w)") auto
  note same = pull_item_never_saves [OF step]
  show ?case
  proof (cases y)
    case (Some exn)
    with step Cons.prems have "w1 = w2" by simp
    with same show ?thesis by simp
  next
    case None
    with step Cons.prems have "for_each (pull_item rs h) items (v2, w2) = (x, v1, w1)" by simp
    from Cons.IH [OF this] same show ?thesis by simp
  qed
qed

lemma pull_loop_completes:
  assumes "\<forall>i r. (\<exists>d. fst (get_r rs i r) = Ok_response d)
             \<or> (\<exists>st msg. fst (get_r rs i r) = Error_response st msg \<and> st \<noteq> 401 \<and> st \<noteq> 403)"
  shows "\<exists>v1 w1. for_each (pull_item rs h) items (v, w) = (None, v1, w1)
           \<and> manifest_writes w1 = manifest_writes w
           \<and> manifest_file w1 = manifest_file w
           \<and> updated v1 + errors v1 = updated v + errors v + length items"
proof (induction items arbitrary: v w)
  case Nil
  then show ?case by simp
next
  case (Cons item items)
  obtain rel_path e where item: "item = (rel_path, e)" by (cases item)
  obtain resp r' where g: "get_r rs (entry_id e) (store w) = (resp, r')"
    by (cases "get_r rs (entry_id e) (store w)")
  from assms [rule_format, of "entry_id e" "store w"] g
  consider d where "resp = Ok_response d"
    | st msg where "resp = Error_response st msg" "st \<noteq> 401" "st \<noteq> 403"
    by auto
  then show ?case
  proof cases
    case 1
    note step = pull_item_Ok [OF g [unfolded 1], of h rel_path v]
    from Cons.IH obtain v1 w1 where
      "for_each (pull_item rs h) items
         (v\<lparr>manifest_var := mutate_entry (manifest_var v) rel_path
                 (\<lambda>e0. e0\<lparr>entry_version := doc_version d, entry_title := doc_title d,
                          entry_category := doc_category d,
                          entry_content_hash := Some (h (content_of d))\<rparr>),
              updated := updated v + 1\<rparr>,
          w\<lparr>files := AList.update rel_path (Text (content_of d)) (files w),
              store := r', requests := requests w @ [Get_doc (entry_id e)]\<rparr>) = (None, v1, w1)
       \<and> manifest_writes w1 = manifest_writes w
       \<and> manifest_file w1 = manifest_file w
       \<and> updated v1 + errors v1 = updated v + 1 + errors v + length items"
      by fastforce
    with step item show ?thesis by simp
  next
    case 2
    note step = pull_item_ApiError [OF g [unfolded 2(1)] 2(2,3), of h rel_path v]
    from Cons.IH obtain v1 w1 where
      "for_each (pull_item rs h) items
         (v\<lparr>errors := errors v + 1\<rparr>,
          w\<lparr>store := r', requests := requests w @ [Get_doc (entry_id e)],
              printed := printed w @ [Error_pulling rel_path msg]\<rparr>) = (None, v1, w1)
       \<and> manifest_writes w1 = manifest_writes w
       \<and> manifest_file w1 = manifest_file w
       \<and> updated v1 + errors v1 = updated v + (errors v + 1) + length items"
      by fastforce
    with step item show ?thesis by simp
  qed
qed

text \<open>
  Claim C7, as stated, says that a fetch failure for one entry is not fatal to pull. This
  fails when the failure is a 401 (or 403) response: \<^verbatim>\<open>_handle_response\<close> calls
  \<^verbatim>\<open>sys.exit(1)\<close>, which \<^verbatim>\<open>except ApiError\<close> does not catch. With two tracked entries and
  a store that answers every fetch with 401, pull ends at the first entry: the second is
  never fetched and the manifest is not saved.
\<close>

theorem pull_auth_failure_counterexample:
  "cmd_pull (sample_store\<lparr>get_r := (\<lambda>d_id docs. (Error_response 401 ''unauthorized'', docs))\<rparr>)
     sample_hash
     (sample_world []
        (Some [(''knowledge/general/a.md'', sample_entry ''d1'' 1 ''general'' ''a.md'' (Some ''A'')),
               (''knowledge/general/b.md'', sample_entry ''d2'' 1 ''general'' ''b.md'' (Some ''B''))])
        [])
   = (Some SystemExit,
      \<lparr>api_key = ''mdlm_key'', api_url = ''https://markdownlm.com'', files = [],
       manifest_file =
         Some [(''knowledge/general/a.md'', sample_entry ''d1'' 1 ''general'' ''a.md'' (Some ''A'')),
               (''knowledge/general/b.md'', sample_entry ''d2'' 1 ''general'' ''b.md'' (Some ''B''))],
       manifest_writes = [], store = [], requests = [Get_doc ''d1''],
       printed = [Error_authentication_failed]\<rparr>)"
  by code_simp

text \<open>
  Claim C7, amended. During pull, a fetch that fails with an error response other than 401
  and 403 (an \<^verbatim>\<open>ApiError\<close>) is not fatal: the item is printed as an error, counted, and
  skipped, and the loop goes on with the remaining entries. For each successful fetch the
  local file is overwritten with the fetched content and the entry's version, title,
  category and content hash are set from the fetched document. When the manifest is not
  empty, the client is configured and every fetch is answered with a document or with such
  an error, the loop runs over the whole manifest without saving, every entry is counted as
  updated or as an error, and the manifest is saved exactly once, after the loop. A fetch
  that is answered with 401 or 403 is fatal: the loop stops at that entry with
  \<^verbatim>\<open>SystemExit\<close>, the remaining entries are not fetched, and pull ends there, after
  whatever the earlier entries did, without saving the manifest.
\<close>

theorem pull_batch:
  "(get_r rs (entry_id e) (store w) = (Error_response st msg, r') \<and> st \<noteq> 401 \<and> st \<noteq> 403 \<longrightarrow>
      for_each (pull_item rs h) ((rel_path, e) # rest) (v, w)
        = for_each (pull_item rs h) rest
            (v\<lparr>errors := errors v + 1\<rparr>,
             w\<lparr>store := r', requests := requests w @ [Get_doc (entry_id e)],
               printed := printed w @ [Error_pulling rel_path msg]\<rparr>))
   \<and> (get_r rs (entry_id e) (store w) = (Ok_response d, r') \<longrightarrow>
      for_each (pull_item rs h) ((rel_path, e) # rest) (v, w)
        = for_each (pull_item rs h) rest
            (v\<lparr>manifest_var := mutate_entry (manifest_var v) rel_path
                 (\<lambda>e0. e0\<lparr>entry_version := doc_version d, entry_title := doc_title d,
                          entry_category := doc_category d,
                          entry_content_hash := Some (h (content_of d))\<rparr>),
               updated := updated v + 1\<rparr>,
             w\<lparr>files := AList.update rel_path (Text (content_of d)) (files w),
               store := r', requests := requests w @ [Get_doc (entry_id e)]\<rparr>))
   \<and> (manifest_file w0 = Some m \<and> m \<noteq> [] \<and> api_key w0 \<noteq> [] \<and> prefix ''https://'' (api_url w0)
        \<and> (\<forall>i r. (\<exists>d. fst (get_r rs i r) = Ok_response d)
               \<or> (\<exists>st msg. fst (get_r rs i r) = Error_response st msg \<and> st \<noteq> 401 \<and> st \<noteq> 403))
      \<longrightarrow> (\<exists>v1 w1. for_each (pull_item rs h) m (initial_locals m, w0) = (None, v1, w1)
             \<and> manifest_writes w1 = manifest_writes w0
             \<and> updated v1 + errors v1 = length m
             \<and> cmd_pull rs h w0
                 = (None, print (Pulled (updated v1) (errors v1)) (save (manifest_var v1) w1))))
   \<and> (get_r rs (entry_id e) (store w) = (Error_response st msg, r') \<and> (st = 401 \<or> st = 403)
      \<longrightarrow> for_each (pull_item rs h) ((rel_path, e) # rest) (v, w)
           = (Some SystemExit, v,
              w\<lparr>store := r', requests := requests w @ [Get_doc (entry_id e)],
                printed := printed w @
                  [if st = 401 then Error_authentication_failed else Error_access_denied]\<rparr>))
   \<and> (is_initialized w0 \<and> api_key w0 \<noteq> [] \<and> prefix ''https://'' (api_url w0)
        \<and> load w0 = earlier @ (rel_path, e) # rest
        \<and> for_each (pull_item rs h) earlier (initial_locals (load w0), w0) = (None, v, w)
        \<and> get_r rs (entry_id e) (store w) = (Error_response st msg, r')
        \<and> (st = 401 \<or> st = 403)
      \<longrightarrow> cmd_pull rs h w0
           = (Some SystemExit,
              w\<lparr>store := r', requests := requests w @ [Get_doc (entry_id e)],
                printed := printed w @
                  [if st = 401 then Error_authentication_failed else Error_access_denied]\<rparr>)
         \<and> manifest_writes (snd (cmd_pull rs h w0)) = manifest_writes w0
         \<and> manifest_file (snd (cmd_pull rs h w0)) = manifest_file w0)"
proof (intro conjI impI)
  assume "get_r rs (entry_id e) (store w) = (Error_response st msg, r') \<and> st \<noteq> 401 \<and> st \<noteq> 403"
  then have "get_r rs (entry_id e) (store w) = (Error_response st msg, r')"
    and "st \<noteq> 401" and "st \<noteq> 403" by simp_all
  then show "for_each (pull_item rs h) ((rel_path, e) # rest) (v, w)
        = for_each (pull_item rs h) rest
            (v\<lparr>errors := errors v + 1\<rparr>,
             w\<lparr>store := r', requests := requests w @ [Get_doc (entry_id e)],
               printed := printed w @ [Error_pulling rel_path msg]\<rparr>)"
    by (intro for_each_Cons_None pull_item_ApiError)
next
  assume "get_r rs (entry_id e) (store w) = (Ok_response d, r')"
  then show "for_each (pull_item rs h) ((rel_path, e) # rest) (v, w)
        = for_each (pull_item rs h) rest
            (v\<lparr>manifest_var := mutate_entry (manifest_var v) rel_path
                 (\<lambda>e0. e0\<lparr>entry_version := doc_version d, entry_title := doc_title d,
                          entry_category := doc_category d,
                          entry_content_hash := Some (h (content_of d))\<rparr>),
               updated := updated v + 1\<rparr>,
             w\<lparr>files := AList.update rel_path (Text (content_of d)) (files w),
               store := r', requests := requests w @ [Get_doc (entry_id e)]\<rparr>)"
    by (intro for_each_Cons_None pull_item_Ok)
next
  assume a: "manifest_file w0 = Some m \<and> m \<noteq> [] \<and> api_key w0 \<noteq> [] \<and> prefix ''https://'' (api_url w0)
        \<and> (\<forall>i r. (\<exists>d. fst (get_r rs i r) = Ok_response d)
               \<or> (\<exists>st msg. fst (get_r rs i r) = Error_response st msg \<and> st \<noteq> 401 \<and> st \<noteq> 403))"
  then have nf: "\<forall>i r. (\<exists>d. fst (get_r rs i r) = Ok_response d)
               \<or> (\<exists>st msg. fst (get_r rs i r) = Error_response st msg \<and> st \<noteq> 401 \<and> st \<noteq> 403)"
    by blast
  from pull_loop_completes [OF nf, of h m "initial_locals m" w0]
  obtain v1 w1 where loop: "for_each (pull_item rs h) m (initial_locals m, w0) = (None, v1, w1)"
    and writes: "manifest_writes w1 = manifest_writes w0"
    and count: "updated v1 + errors v1
                  = updated (initial_locals m) + errors (initial_locals m) + length m"
    by blast
  have "cmd_pull rs h w0
          = (None, print (Pulled (updated v1) (errors v1)) (save (manifest_var v1) w1))"
    using a loop by (simp add: cmd_pull_def is_initialized_def load_def ApiClient_def)
  with loop writes count
  show "\<exists>v1 w1. for_each (pull_item rs h) m (initial_locals m, w0) = (None, v1, w1)
             \<and> manifest_writes w1 = manifest_writes w0
             \<and> updated v1 + errors v1 = length m
             \<and> cmd_pull rs h w0
                 = (None, print (Pulled (updated v1) (errors v1)) (save (manifest_var v1) w1))"
    by (auto simp: initial_locals_def)
next
  assume "get_r rs (entry_id e) (store w) = (Error_response st msg, r') \<and> (st = 401 \<or> st = 403)"
  then have "get_r rs (entry_id e) (store w) = (Error_response st msg, r')"
    and "st = 401 \<or> st = 403" by blast+
  then show "for_each (pull_item rs h) ((rel_path, e) # rest) (v, w)
           = (Some SystemExit, v,
              w\<lparr>store := r', requests := requests w @ [Get_doc (entry_id e)],
                printed := printed w @
                  [if st = 401 then Error_authentication_failed else Error_access_denied]\<rparr>)"
    by (intro for_each_Cons_Some pull_item_auth_failure)
next
  let ?w' = "w\<lparr>store := r', requests := requests w @ [Get_doc (entry_id e)],
                printed := printed w @
                  [if st = 401 then Error_authentication_failed else Error_access_denied]\<rparr>"
  assume a: "is_initialized w0 \<and> api_key w0 \<noteq> [] \<and> prefix ''https://'' (api_url w0)
        \<and> load w0 = earlier @ (rel_path, e) # rest
        \<and> for_each (pull_item rs h) earlier (initial_locals (load w0), w0) = (None, v, w)
        \<and> get_r rs (entry_id e) (store w) = (Error_response st msg, r')
        \<and> (st = 401 \<or> st = 403)"
  then have loop: "for_each (pull_item rs h) earlier (initial_locals (load w0), w0) = (None, v, w)"
    and m: "load w0 = earlier @ (rel_path, e) # rest"
    and g: "get_r rs (entry_id e) (store w) = (Error_response st msg, r')"
    and st: "st = 401 \<or> st = 403"
    by blast+
  have item: "pull_item rs h (rel_path, e) (v, w) = (Some SystemExit, v, ?w')"
    using g st by (rule pull_item_auth_failure)
  have "for_each (pull_item rs h) (earlier @ (rel_path, e) # rest) (initial_locals (load w0), w0)
        = for_each (pull_item rs h) ((rel_path, e) # rest) (v, w)"
    unfolding for_each_append loop by simp
  also have "\<dots> = (Some SystemExit, v, ?w')"
    using item by (rule for_each_Cons_Some)
  finally have run: "for_each (pull_item rs h) (load w0) (initial_locals (load w0), w0)
               = (Some SystemExit, v, ?w')"
    unfolding m [symmetric] .
  have ne: "load w0 \<noteq> []" unfolding m by simp
  from a have "is_initialized w0" "api_key w0 \<noteq> []" "prefix ''https://'' (api_url w0)"
    by blast+
  with run ne have res: "cmd_pull rs h w0 = (Some SystemExit, ?w')"
    by (simp add: cmd_pull_def ApiClient_def Let_def)
  from pull_loop_never_saves [OF loop]
  have frame: "manifest_writes ?w' = manifest_writes w0 \<and> manifest_file ?w' = manifest_file w0"
    by simp
  from res show "cmd_pull rs h w0 = (Some SystemExit, ?w')" .
  from res frame show "manifest_writes (snd (cmd_pull rs h w0)) = manifest_writes w0"
    by simp
  from res frame show "manifest_file (snd (cmd_pull rs h w0)) = manifest_file w0"
    by simp
qed

lemma sample_store_fetch_not_fatal:
  "\<forall>i r. (\<exists>d. fst (get_r sample_store i r) = Ok_response d)
     \<or> (\<exists>st msg. fst (get_r sample_store i r) = Error_response st msg \<and> st \<noteq> 401 \<and> st \<noteq> 403)"
  by (simp add: sample_store_def split: option.splits)

lemma pull_example_loop:
  "for_each (pull_item sample_store sample_hash)
     [(''knowledge/general/a.md'', sample_entry ''d1'' 1 ''general'' ''a.md'' (Some ''A'')),
      (''knowledge/general/b.md'', sample_entry ''d2'' 1 ''general'' ''b.md'' (Some ''B''))]
     (initial_locals
        [(''knowledge/general/a.md'', sample_entry ''d1'' 1 ''general'' ''a.md'' (Some ''A'')),
         (''knowledge/general/b.md'', sample_entry ''d2'' 1 ''general'' ''b.md'' (Some ''B''))],
      sample_world [(''knowledge/general/a.md'', Text ''A local edit'')]
        (Some [(''knowledge/general/a.md'', sample_entry ''d1'' 1 ''general'' ''a.md'' (Some ''A'')),
               (''knowledge/general/b.md'', sample_entry ''d2'' 1 ''general'' ''b.md'' (Some ''B''))])
        [sample_doc ''d1'' 2 ''stack'' ''a2.md'' ''A2''])
   = (None,
      \<lparr>manifest_var =
         [(''knowledge/general/a.md'', sample_entry ''d1'' 2 ''stack'' ''a2.md'' (Some ''A2'')),
          (''knowledge/general/b.md'', sample_entry ''d2'' 1 ''general'' ''b.md'' (Some ''B''))],
       created = 0, updated = 1, deleted_count = 0, errors = 1\<rparr>,
      \<lparr>api_key = ''mdlm_key'', api_url = ''https://markdownlm.com'',
       files = [(''knowledge/general/a.md'', Text ''A2'')],
       manifest_file =
         Some [(''knowledge/general/a.md'', sample_entry ''d1'' 1 ''general'' ''a.md'' (Some ''A'')),
               (''knowledge/general/b.md'', sample_entry ''d2'' 1 ''general'' ''b.md'' (Some ''B''))],
       manifest_writes = [], store = [sample_doc ''d1'' 2 ''stack'' ''a2.md'' ''A2''],
       requests = [Get_doc ''d1'', Get_doc ''d2''],
       printed = [Error_pulling ''knowledge/general/b.md'' ''not found'']\<rparr>)"
  by code_simp

theorem pull_batch_witness:
  "get_r sample_store (entry_id (sample_entry ''d2'' 1 ''general'' ''b.md'' (Some ''B'')))
       (store (sample_world [] None ([] :: doc list)))
     = (Error_response 404 ''not found'', [])
   \<and> (404 :: nat) \<noteq> 401 \<and> (404 :: nat) \<noteq> 403
   \<and> for_each (pull_item sample_store sample_hash)
        [(''knowledge/general/b.md'', sample_entry ''d2'' 1 ''general'' ''b.md'' (Some ''B''))]
        (initial_locals [], sample_world [] None [])
      = (None, (initial_locals [])\<lparr>errors := 1\<rparr>,
         (sample_world [] None [])
           \<lparr>requests := [Get_doc ''d2''],
             printed := [Error_pulling ''knowledge/general/b.md'' ''not found'']\<rparr>)
   \<and> get_r sample_store (entry_id (sample_entry ''d1'' 1 ''general'' ''a.md'' (Some ''A'')))
       (store (sample_world [] None [sample_doc ''d1'' 2 ''stack'' ''a2.md'' ''A2'']))
     = (Ok_response (sample_doc ''d1'' 2 ''stack'' ''a2.md'' ''A2''),
        [sample_doc ''d1'' 2 ''stack'' ''a2.md'' ''A2''])
   \<and> for_each (pull_item sample_store sample_hash)
        [(''knowledge/general/a.md'', sample_entry ''d1'' 1 ''general'' ''a.md'' (Some ''A''))]
        (initial_locals
           [(''knowledge/general/a.md'', sample_entry ''d1'' 1 ''general'' ''a.md'' (Some ''A''))],
         sample_world [] None [sample_doc ''d1'' 2 ''stack'' ''a2.md'' ''A2''])
      = (None,
         (initial_locals
            [(''knowledge/general/a.md'', sample_entry ''d1'' 2 ''stack'' ''a2.md'' (Some ''A2''))])
           \<lparr>updated := 1\<rparr>,
         (sample_world [(''knowledge/general/a.md'', Text ''A2'')] None
            [sample_doc ''d1'' 2 ''stack'' ''a2.md'' ''A2''])\<lparr>requests := [Get_doc ''d1'']\<rparr>)
   \<and> cmd_pull sample_store sample_hash
        (sample_world [(''knowledge/general/a.md'', Text ''A local edit'')]
           (Some [(''knowledge/general/a.md'', sample_entry ''d1'' 1 ''general'' ''a.md'' (Some ''A'')),
                  (''knowledge/general/b.md'', sample_entry ''d2'' 1 ''general'' ''b.md'' (Some ''B''))])
           [sample_doc ''d1'' 2 ''stack'' ''a2.md'' ''A2''])
      = (None,
         \<lparr>api_key = ''mdlm_key'', api_url = ''https://markdownlm.com'',
          files = [(''knowledge/general/a.md'', Text ''A2'')],
          manifest_file =
            Some [(''knowledge/general/a.md'', sample_entry ''d1'' 2 ''stack'' ''a2.md'' (Some ''A2'')),
                  (''knowledge/general/b.md'', sample_entry ''d2'' 1 ''general'' ''b.md'' (Some ''B''))],
          manifest_writes =
            [[(''knowledge/general/a.md'', sample_entry ''d1'' 2 ''stack'' ''a2.md'' (Some ''A2'')),
              (''knowledge/general/b.md'', sample_entry ''d2'' 1 ''general'' ''b.md'' (Some ''B''))]],
          store = [sample_doc ''d1'' 2 ''stack'' ''a2.md'' ''A2''],
          requests = [Get_doc ''d1'', Get_doc ''d2''],
          printed = [Error_pulling ''knowledge/general/b.md'' ''not found'', Pulled 1 1]\<rparr>)
   \<and> get_r forbidden_store (entry_id (sample_entry ''d2'' 1 ''general'' ''b.md'' (Some ''B'')))
       (store (sample_world [] None ([] :: doc list)))
     = (Error_response 403 ''forbidden'', [])
   \<and> for_each (pull_item forbidden_store sample_hash)
        [(''knowledge/general/b.md'', sample_entry ''d2'' 1 ''general'' ''b.md'' (Some ''B''))]
        (initial_locals [], sample_world [] None [])
      = (Some SystemExit, initial_locals [],
         (sample_world [] None [])
           \<lparr>requests := [Get_doc ''d2''], printed := [Error_access_denied]\<rparr>)
   \<and> cmd_pull forbidden_store sample_hash
        (sample_world [(''knowledge/general/a.md'', Text ''A local edit'')]
           (Some [(''knowledge/general/a.md'', sample_entry ''d1'' 1 ''general'' ''a.md'' (Some ''A'')),
                  (''knowledge/general/b.md'', sample_entry ''d2'' 1 ''general'' ''b.md'' (Some ''B''))])
           [sample_doc ''d1'' 2 ''stack'' ''a2.md'' ''A2''])
      = (Some SystemExit,
         \<lparr>api_key = ''mdlm_key'', api_url = ''https://markdownlm.com'',
          files = [(''knowledge/general/a.md'', Text ''A2'')],
          manifest_file =
            Some [(''knowledge/general/a.md'', sample_entry ''d1'' 1 ''general'' ''a.md'' (Some ''A'')),
                  (''knowledge/general/b.md'', sample_entry ''d2'' 1 ''general'' ''b.md'' (Some ''B''))],
          manifest_writes = [],
          store = [sample_doc ''d1'' 2 ''stack'' ''a2.md'' ''A2''],
          requests = [Get_doc ''d1'', Get_doc ''d2''],
          printed = [Error_access_denied]\<rparr>)"
proof -
  let ?a = "''knowledge/general/a.md''" and ?b = "''knowledge/general/b.md''"
  let ?ea = "sample_entry ''d1'' 1 ''general'' ''a.md'' (Some ''A'')"
  let ?eb = "sample_entry ''d2'' 1 ''general'' ''b.md'' (Some ''B'')"
  let ?d = "sample_doc ''d1'' 2 ''stack'' ''a2.md'' ''A2''"
  let ?m = "[(?a, ?ea), (?b, ?eb)]"
  let ?w0 = "sample_world [(?a, Text ''A local edit'')] (Some ?m) [?d]"
  have g1: "get_r sample_store (entry_id ?eb) (store (sample_world [] None ([] :: doc list)))
     = (Error_response 404 ''not found'', [])"
    by (simp add: sample_store_def sample_world_def)
  have n: "(404 :: nat) \<noteq> 401 \<and> (404 :: nat) \<noteq> 403" by simp
  have g2: "get_r sample_store (entry_id ?ea) (store (sample_world [] None [?d]))
     = (Ok_response ?d, [?d])"
    by (simp add: sample_store_def sample_world_def sample_entry_def sample_doc_def)
  have pre: "manifest_file ?w0 = Some ?m \<and> ?m \<noteq> [] \<and> api_key ?w0 \<noteq> []
      \<and> prefix ''https://'' (api_url ?w0)
      \<and> (\<forall>i r. (\<exists>d. fst (get_r sample_store i r) = Ok_response d)
           \<or> (\<exists>st msg. fst (get_r sample_store i r) = Error_response st msg
                \<and> st \<noteq> 401 \<and> st \<noteq> 403))"
    using sample_store_fetch_not_fatal by (simp add: sample_world_def)
  note t1 = pull_batch [where rs = sample_store and h = sample_hash and e = ?eb
      and w = "sample_world [] None []" and st = 404 and msg = "''not found''" and r' = "[]"
      and rel_path = ?b and rest = "[]" and v = "initial_locals []", THEN conjunct1, rule_format]
  note t2 = pull_batch [where rs = sample_store and h = sample_hash and e = ?ea
      and w = "sample_world [] None [?d]" and d = ?d and r' = "[?d]"
      and rel_path = ?a and rest = "[]" and v = "initial_locals [(?a, ?ea)]",
      THEN conjunct2, THEN conjunct1, rule_format]
  note t3 = pull_batch [where rs = sample_store and h = sample_hash and ?w0.0 = ?w0 and m = ?m,
      THEN conjunct2, THEN conjunct2, THEN conjunct1, rule_format]
  note t4 = pull_batch [where rs = forbidden_store and h = sample_hash and e = ?eb
      and w = "sample_world [] None []" and st = 403 and msg = "''forbidden''" and r' = "[]"
      and rel_path = ?b and rest = "[]" and v = "initial_locals []",
      THEN conjunct2, THEN conjunct2, THEN conjunct2, THEN conjunct1, rule_format]
  have g4: "get_r forbidden_store (entry_id ?eb) (store (sample_world [] None ([] :: doc list)))
     = (Error_response 403 ''forbidden'', [])"
    by (simp add: forbidden_store_def sample_entry_def sample_world_def)
  have c4: "for_each (pull_item forbidden_store sample_hash) [(?b, ?eb)]
        (initial_locals [], sample_world [] None [])
      = (Some SystemExit, initial_locals [],
         (sample_world [] None [])
           \<lparr>requests := [Get_doc ''d2''], printed := [Error_access_denied]\<rparr>)"
    using t4 g4
    by (simp add: sample_world_def sample_entry_def)
  let ?wmid = "\<lparr>api_key = ''mdlm_key'', api_url = ''https://markdownlm.com'',
       files = [(?a, Text ''A2'')], manifest_file = Some ?m,
       manifest_writes = [], store = [?d],
       requests = [Get_doc ''d1''], printed = []\<rparr>"
  let ?vmid = "\<lparr>manifest_var =
         [(?a, sample_entry ''d1'' 2 ''stack'' ''a2.md'' (Some ''A2'')), (?b, ?eb)],
       created = 0, updated = 1, deleted_count = 0, errors = 0\<rparr>"
  have loop5: "for_each (pull_item forbidden_store sample_hash) [(?a, ?ea)]
        (initial_locals (load ?w0), ?w0) = (None, ?vmid, ?wmid)"
    by code_simp
  have pre5: "is_initialized ?w0 \<and> api_key ?w0 \<noteq> [] \<and> prefix ''https://'' (api_url ?w0)
      \<and> load ?w0 = [(?a, ?ea)] @ (?b, ?eb) # []"
    by (simp add: is_initialized_def load_def sample_world_def)
  have g5: "get_r forbidden_store (entry_id ?eb) (store ?wmid)
     = (Error_response 403 ''forbidden'', [?d])"
    by (simp add: forbidden_store_def sample_entry_def)
  note t5 = pull_batch [where rs = forbidden_store and h = sample_hash and e = ?eb
      and ?w0.0 = ?w0 and earlier = "[(?a, ?ea)]" and rel_path = ?b and rest = "[]"
      and v = ?vmid and w = ?wmid and st = 403 and msg = "''forbidden''" and r' = "[?d]",
      THEN conjunct2, THEN conjunct2, THEN conjunct2, THEN conjunct2, rule_format]
  have c5: "cmd_pull forbidden_store sample_hash ?w0
      = (Some SystemExit,
         \<lparr>api_key = ''mdlm_key'', api_url = ''https://markdownlm.com'',
          files = [(?a, Text ''A2'')], manifest_file = Some ?m,
          manifest_writes = [], store = [?d],
          requests = [Get_doc ''d1'', Get_doc ''d2''],
          printed = [Error_access_denied]\<rparr>)"
  proof -
    have st5: "(403 :: nat) = 401 \<or> (403 :: nat) = 403" by simp
    from pre5 have i5: "is_initialized ?w0" and k5: "api_key ?w0 \<noteq> []"
      and u5: "prefix ''https://'' (api_url ?w0)"
      and m5: "load ?w0 = [(?a, ?ea)] @ (?b, ?eb) # []"
      by blast+
    note hyp = conjI [OF i5 conjI [OF k5 conjI [OF u5 conjI [OF m5 conjI [OF loop5
      conjI [OF g5 st5]]]]]]
    from t5 [OF hyp] have "cmd_pull forbidden_store sample_hash ?w0
      = (Some SystemExit,
         ?wmid\<lparr>store := [?d], requests := requests ?wmid @ [Get_doc (entry_id ?eb)],
                printed := printed ?wmid @
                  [if (403 :: nat) = 401 then Error_authentication_failed
                   else Error_access_denied]\<rparr>)"
      by (rule conjunct1)
    then show ?thesis by (simp add: sample_entry_def)
  qed
  have c1: "for_each (pull_item sample_store sample_hash) [(?b, ?eb)]
        (initial_locals [], sample_world [] None [])
      = (None, (initial_locals [])\<lparr>errors := 1\<rparr>,
         (sample_world [] None [])
           \<lparr>requests := [Get_doc ''d2''], printed := [Error_pulling ?b ''not found'']\<rparr>)"
    using t1 g1 n
    by (simp add: sample_world_def sample_entry_def initial_locals_def)
  have c2: "for_each (pull_item sample_store sample_hash) [(?a, ?ea)]
        (initial_locals [(?a, ?ea)], sample_world [] None [?d])
      = (None,
         (initial_locals [(?a, sample_entry ''d1'' 2 ''stack'' ''a2.md'' (Some ''A2''))])
           \<lparr>updated := 1\<rparr>,
         (sample_world [(?a, Text ''A2'')] None [?d])\<lparr>requests := [Get_doc ''d1'']\<rparr>)"
    using t2 [OF g2]
    by (simp add: sample_world_def sample_entry_def sample_doc_def initial_locals_def
          mutate_entry_def content_of_def sample_hash_def)
  from t3 [OF pre] obtain v1 w1 where
    loop: "for_each (pull_item sample_store sample_hash) ?m (initial_locals ?m, ?w0)
             = (None, v1, w1)"
    and res: "cmd_pull sample_store sample_hash ?w0
             = (None, print (Pulled (updated v1) (errors v1)) (save (manifest_var v1) w1))"
    by blast
  from loop have "v1 = \<lparr>manifest_var =
         [(?a, sample_entry ''d1'' 2 ''stack'' ''a2.md'' (Some ''A2'')), (?b, ?eb)],
       created = 0, updated = 1, deleted_count = 0, errors = 1\<rparr>"
    and "w1 = \<lparr>api_key = ''mdlm_key'', api_url = ''https://markdownlm.com'',
       files = [(?a, Text ''A2'')], manifest_file = Some ?m,
       manifest_writes = [], store = [?d],
       requests = [Get_doc ''d1'', Get_doc ''d2''],
       printed = [Error_pulling ?b ''not found'']\<rparr>"
    unfolding pull_example_loop by simp_all
  with res have c3: "cmd_pull sample_store sample_hash ?w0
      = (None,
         \<lparr>api_key = ''mdlm_key'', api_url = ''https://markdownlm.com'',
          files = [(?a, Text ''A2'')],
          manifest_file =
            Some [(?a, sample_entry ''d1'' 2 ''stack'' ''a2.md'' (Some ''A2'')), (?b, ?eb)],
          manifest_writes =
            [[(?a, sample_entry ''d1'' 2 ''stack'' ''a2.md'' (Some ''A2'')), (?b, ?eb)]],
          store = [?d],
          requests = [Get_doc ''d1'', Get_doc ''d2''],
          printed = [Error_pulling ?b ''not found'', Pulled 1 1]\<rparr>)"
    by (simp add: print_def save_def)
  show ?thesis using g1 n c1 g2 c2 c3 g4 c4 c5 by blast
qed

section \<open>Push: the category of an untracked file\<close>

lemma split_on_no_sep: "sep \<notin> set a \<Longrightarrow> split_on sep a = [a]"
  by (induction a) auto

lemma split_on_append:
  "sep \<notin> set a \<Longrightarrow> split_on sep (a @ sep # b) = a # split_on sep b"
  by (induction a) auto

lemma path_parts_knowledge:
  "path_parts (''knowledge/'' @ s) = ''knowledge'' # path_parts s"
proof -
  have "split_on (CHR ''/'') (''knowledge'' @ CHR ''/'' # s)
          = ''knowledge'' # split_on (CHR ''/'') s"
    by (rule split_on_append) simp
  then show ?thesis by (simp add: path_parts_def)
qed

lemma path_parts_segment:
  assumes "CHR ''/'' \<notin> set seg" and "seg \<noteq> []" and "seg \<noteq> ''.''"
  shows "path_parts (seg @ ''/'' @ s) = seg # path_parts s"
  using assms split_on_append [of "CHR ''/''" seg s] by (simp add: path_parts_def)

lemma path_parts_name:
  assumes "CHR ''/'' \<notin> set name"
  shows "length (path_parts name) \<le> 1"
  using assms by (simp add: path_parts_def split_on_no_sep)

lemma inferred_category_top_level:
  assumes "CHR ''/'' \<notin> set name"
  shows "inferred_category (''knowledge/'' @ name) = ''general''"
  using path_parts_name [OF assms] path_parts_knowledge [of name]
  by (simp add: inferred_category_def VALID_CATEGORIES_def Let_def)

lemma inferred_category_nested:
  assumes "CHR ''/'' \<notin> set seg" and "seg \<noteq> []" and "seg \<noteq> ''.''"
    and "path_parts s \<noteq> []"
  shows "inferred_category (''knowledge/'' @ seg @ ''/'' @ s)
           = (if seg \<in> set VALID_CATEGORIES then seg else ''general'')"
proof -
  have "path_parts (''knowledge/'' @ seg @ ''/'' @ s) = ''knowledge'' # seg # path_parts s"
    using path_parts_knowledge [of "seg @ ''/'' @ s"] path_parts_segment [OF assms(1-3), of s]
    by simp
  then show ?thesis using assms(4)
    by (cases "path_parts s") (simp_all add: inferred_category_def Let_def)
qed

lemma create_doc_requests:
  "create_doc rs t c cat w = (x, w1) \<Longrightarrow> requests w1 = requests w @ [Create_doc t c cat]"
  by (auto simp: create_doc_def sent_def split: prod.splits dest!: handle_response_requests)

lemma push_untracked_item_create:
  assumes "map_of (manifest_var v) p = None"
    and "\<not> skipped_by_filter (arg_category args) (inferred_category p)"
    and "read_text p w = Inr content"
  shows "requests (snd (snd (push_untracked_item rs h args p (v, w))))
           = requests w @ [Create_doc (path_name p) content (inferred_category p)]"
proof -
  obtain y w2 where c: "create_doc rs (path_name p) content (inferred_category p) w = (y, w2)"
    by (cases "create_doc rs (path_name p) content (inferred_category p) w")
  note r = create_doc_requests [OF c]
  show ?thesis
  proof (cases y)
    case (Inl exn)
    with assms c r show ?thesis by (cases exn) (simp_all add: Let_def print_def)
  next
    case (Inr d)
    with assms c r show ?thesis by (simp add: Let_def print_def save_def)
  qed
qed

lemma push_untracked_item_requests:
  assumes "push_untracked_item rs h args p (v, w) = (x, v1, w1)"
  shows "requests w1 = requests w
       \<or> (\<exists>c. requests w1 = requests w @ [Create_doc (path_name p) c (inferred_category p)])"
proof (cases "map_of (manifest_var v) p = None
    \<and> \<not> skipped_by_filter (arg_category args) (inferred_category p)")
  case False
  with assms show ?thesis by (auto simp: Let_def split: if_splits)
next
  case True
  show ?thesis
  proof (cases "read_text p w")
    case (Inl exn)
    with True assms show ?thesis by (auto simp: Let_def split: if_splits)
  next
    case (Inr content)
    from push_untracked_item_create [OF _ _ Inr, of v args rs h] True assms
    show ?thesis by auto
  qed
qed

lemma push_untracked_requests:
  "for_each (push_untracked_item rs h args) ps (v, w) = (x, v1, w1) \<Longrightarrow>
     \<exists>new. requests w1 = requests w @ new
       \<and> (\<forall>rq \<in> set new. \<exists>q \<in> set ps. \<exists>c.
              rq = Create_doc (path_name q) c (inferred_category q))"
proof (induction ps arbitrary: v w)
  case Nil
  then show ?case by simp
next
  case (Cons p ps)
  obtain y v2 w2 where item: "push_untracked_item rs h args p (v, w) = (y, v2, w2)"
    by (cases "push_untracked_item rs h args p (v, w)") auto
  from push_untracked_item_requests [OF item]
  obtain new1 where n1: "requests w2 = requests w @ new1"
    and c1: "\<forall>rq \<in> set new1. \<exists>c. rq = Create_doc (path_name p) c (inferred_category p)"
    by (metis append_Nil2 empty_iff empty_set set_ConsD)
  show ?case
  proof (cases y)
    case (Some exn)
    with item Cons.prems have "w1 = w2" by simp
    with n1 c1 show ?thesis by auto
  next
    case None
    with item Cons.prems
    have "for_each (push_untracked_item rs h args) ps (v2, w2) = (x, v1, w1)" by simp
    from Cons.IH [OF this] obtain new2 where n2: "requests w1 = requests w2 @ new2"
      and c2: "\<forall>rq \<in> set new2. \<exists>q \<in> set ps. \<exists>c.
              rq = Create_doc (path_name q) c (inferred_category q)"
      by blast
    have "requests w1 = requests w @ (new1 @ new2)" using n1 n2 by simp
    moreover have "\<forall>rq \<in> set (new1 @ new2). \<exists>q \<in> set (p # ps). \<exists>c.
              rq = Create_doc (path_name q) c (inferred_category q)"
      using c1 c2 by auto
    ultimately show ?thesis by blast
  qed
qed

text \<open>
  Claim C9. In the untracked-file phase of push, the file at \<open>rel_path\<close> that is not a
  manifest key, passes the category filter and is read is sent to the Remote Store with a
  create request whose category is the inferred one; every request the phase sends is such
  a create request for one of the listed files; and the inferred category of a file directly
  under the knowledge root is \<^verbatim>\<open>general\<close>, while for a file inside a directory of the
  knowledge root it is the name of the first directory below the root when that name is in
  the fixed category set, and \<^verbatim>\<open>general\<close> when it is not.
\<close>

theorem push_untracked_category:
  "(map_of (manifest_var v) rel_path = None
      \<and> \<not> skipped_by_filter (arg_category args) (inferred_category rel_path)
      \<and> read_text rel_path w = Inr content
     \<longrightarrow> requests (snd (snd (push_untracked_item rs h args rel_path (v, w))))
           = requests w @ [Create_doc (path_name rel_path) content (inferred_category rel_path)])
   \<and> (for_each (push_untracked_item rs h args) ps (v, w) = (x, v1, w1)
     \<longrightarrow> (\<exists>new. requests w1 = requests w @ new
           \<and> (\<forall>rq \<in> set new. \<exists>q \<in> set ps. \<exists>c.
                  rq = Create_doc (path_name q) c (inferred_category q))))
   \<and> (CHR ''/'' \<notin> set name \<longrightarrow> inferred_category (''knowledge/'' @ name) = ''general'')
   \<and> (CHR ''/'' \<notin> set seg \<and> seg \<noteq> [] \<and> seg \<noteq> ''.'' \<and> path_parts s \<noteq> []
     \<longrightarrow> inferred_category (''knowledge/'' @ seg @ ''/'' @ s)
           = (if seg \<in> set VALID_CATEGORIES then seg else ''general''))"
  using push_untracked_item_create [of v rel_path args w content rs h]
    push_untracked_requests [of rs h args ps v w x v1 w1]
    inferred_category_top_level [of name]
    inferred_category_nested [of seg s]
  by blast

lemma untracked_example_requests:
  "requests (snd (snd (for_each (push_untracked_item sample_store sample_hash (sample_args None False))
      [''knowledge/architecture/layering.md'', ''knowledge/misc/x.md'', ''knowledge/notes.md'']
      (initial_locals [],
       sample_world
         [(''knowledge/architecture/layering.md'', Text ''A''),
          (''knowledge/misc/x.md'', Text ''X''),
          (''knowledge/notes.md'', Text ''N'')] (Some []) []))))
   = [Create_doc ''layering.md'' ''A'' ''architecture'',
      Create_doc ''x.md'' ''X'' ''general'',
      Create_doc ''notes.md'' ''N'' ''general'']"
  by code_simp

theorem push_untracked_category_witness:
  "map_of (manifest_var (initial_locals [])) ''knowledge/architecture/layering.md'' = None
   \<and> \<not> skipped_by_filter (arg_category (sample_args None False))
         (inferred_category ''knowledge/architecture/layering.md'')
   \<and> read_text ''knowledge/architecture/layering.md''
        (sample_world
           [(''knowledge/architecture/layering.md'', Text ''A''),
            (''knowledge/misc/x.md'', Text ''X''),
            (''knowledge/notes.md'', Text ''N'')] (Some []) ([] :: doc list)) = Inr ''A''
   \<and> requests (snd (snd (push_untracked_item sample_store sample_hash (sample_args None False)
        ''knowledge/architecture/layering.md''
        (initial_locals [],
         sample_world
           [(''knowledge/architecture/layering.md'', Text ''A''),
            (''knowledge/misc/x.md'', Text ''X''),
            (''knowledge/notes.md'', Text ''N'')] (Some []) []))))
      = [Create_doc ''layering.md'' ''A'' ''architecture'']
   \<and> requests (snd (snd (for_each (push_untracked_item sample_store sample_hash (sample_args None False))
        [''knowledge/architecture/layering.md'', ''knowledge/misc/x.md'', ''knowledge/notes.md'']
        (initial_locals [],
         sample_world
           [(''knowledge/architecture/layering.md'', Text ''A''),
            (''knowledge/misc/x.md'', Text ''X''),
            (''knowledge/notes.md'', Text ''N'')] (Some []) []))))
      = [Create_doc ''layering.md'' ''A'' ''architecture'',
         Create_doc ''x.md'' ''X'' ''general'',
         Create_doc ''notes.md'' ''N'' ''general'']
   \<and> CHR ''/'' \<notin> set ''notes.md''
   \<and> inferred_category ''knowledge/notes.md'' = ''general''
   \<and> CHR ''/'' \<notin> set ''architecture'' \<and> ''architecture'' \<noteq> [] \<and> ''architecture'' \<noteq> ''.''
   \<and> path_parts ''layering.md'' \<noteq> []
   \<and> inferred_category ''knowledge/architecture/layering.md'' = ''architecture''
   \<and> CHR ''/'' \<notin> set ''misc'' \<and> ''misc'' \<noteq> [] \<and> ''misc'' \<noteq> ''.''
   \<and> path_parts ''x.md'' \<noteq> []
   \<and> inferred_category ''knowledge/misc/x.md'' = ''general''"
proof -
  let ?p = "''knowledge/architecture/layering.md''"
  let ?w = "sample_world
           [(''knowledge/architecture/layering.md'', Text ''A''),
            (''knowledge/misc/x.md'', Text ''X''),
            (''knowledge/notes.md'', Text ''N'')] (Some []) ([] :: doc list)"
  let ?ps = "[''knowledge/architecture/layering.md'', ''knowledge/misc/x.md'', ''knowledge/notes.md'']"
  let ?args = "sample_args None False"
  let ?run = "for_each (push_untracked_item sample_store sample_hash ?args) ?ps
                (initial_locals [], ?w)"
  have n1: "CHR ''/'' \<notin> set ''notes.md''" by simp
  have n2: "CHR ''/'' \<notin> set ''architecture'' \<and> ''architecture'' \<noteq> [] \<and> ''architecture'' \<noteq> ''.''
              \<and> path_parts ''layering.md'' \<noteq> []"
    by (simp add: path_parts_def)
  have n3: "CHR ''/'' \<notin> set ''misc'' \<and> ''misc'' \<noteq> [] \<and> ''misc'' \<noteq> ''.''
              \<and> path_parts ''x.md'' \<noteq> []"
    by (simp add: path_parts_def)
  note t = push_untracked_category [where rs = sample_store and h = sample_hash and args = ?args
      and v = "initial_locals []" and w = ?w and rel_path = ?p and content = "''A''"
      and ps = ?ps and x = "fst ?run" and ?v1.0 = "fst (snd ?run)" and ?w1.0 = "snd (snd ?run)"
      and name = "''notes.md''"]
  have c1: "inferred_category ''knowledge/notes.md'' = ''general''"
    using t [where seg = "''misc''" and s = "''x.md''"] n1 by simp
  have c2: "inferred_category ?p = ''architecture''"
    using t [where seg = "''architecture''" and s = "''layering.md''"] n2
    by (simp add: VALID_CATEGORIES_def)
  have c3: "inferred_category ''knowledge/misc/x.md'' = ''general''"
    using t [where seg = "''misc''" and s = "''x.md''"] n3
    by (simp add: VALID_CATEGORIES_def)
  have h1: "map_of (manifest_var (initial_locals [])) ?p = None"
    by (simp add: initial_locals_def)
  have h2: "\<not> skipped_by_filter (arg_category ?args) (inferred_category ?p)"
    by (simp add: skipped_by_filter_def sample_args_def truthy_def)
  have h3: "read_text ?p ?w = Inr ''A''"
    by (simp add: read_text_def sample_world_def)
  have c4: "requests (snd (snd (push_untracked_item sample_store sample_hash ?args ?p
              (initial_locals [], ?w)))) = [Create_doc ''layering.md'' ''A'' ''architecture'']"
    using t [where seg = "''misc''" and s = "''x.md''"] h1 h2 h3 c2
    by (simp add: sample_world_def path_name_def path_parts_def)
  show ?thesis
    using h1 h2 h3 c4 untracked_example_requests n1 c1 n2 c2 n3 c3 by blast
qed

section \<open>Clone\<close>

text \<open>The path a document is cloned to, and the document that ends up at a path.\<close>

lemma clone_loop_frame:
  "clone_loop h docs (m, n, w) = (m1, n1, w1) \<Longrightarrow>
     n1 = n + length docs
     \<and> w1 = w\<lparr>files := files w1\<rparr>"
proof (induction docs arbitrary: m n w)
  case Nil
  then show ?case by simp
next
  case (Cons d docs)
  let ?rel = "local_path (doc_category d) (doc_title d)"
  from Cons.prems have "clone_loop h docs
      (add_entry m ?rel (entry_of_doc h d), n + 1, write_local ?rel (content_of d) w)
      = (m1, n1, w1)"
    by (simp add: Let_def)
  from Cons.IH [OF this] show ?case by (simp add: write_local_def)
qed

lemma clone_loop_manifest:
  "clone_loop h docs (m, n, w) = (m1, n1, w1) \<Longrightarrow>
     map_of m1 p =
       (case filter (\<lambda>d. local_path (doc_category d) (doc_title d) = p) docs of
          [] \<Rightarrow> map_of m p
        | d # ds \<Rightarrow> Some (entry_of_doc h (last (d # ds))))"
proof (induction docs arbitrary: m n w)
  case Nil
  then show ?case by simp
next
  case (Cons d docs)
  let ?rel = "local_path (doc_category d) (doc_title d)"
  from Cons.prems have "clone_loop h docs
      (add_entry m ?rel (entry_of_doc h d), n + 1, write_local ?rel (content_of d) w)
      = (m1, n1, w1)"
    by (simp add: Let_def)
  from Cons.IH [OF this] show ?case
    by (auto simp: add_entry_def update_conv' split: list.splits)
qed

lemma clone_loop_files:
  "clone_loop h docs (m, n, w) = (m1, n1, w1) \<Longrightarrow>
     map_of (files w1) p =
       (case filter (\<lambda>d. local_path (doc_category d) (doc_title d) = p) docs of
          [] \<Rightarrow> map_of (files w) p
        | d # ds \<Rightarrow> Some (Text (content_of (last (d # ds)))))"
proof (induction docs arbitrary: m n w)
  case Nil
  then show ?case by simp
next
  case (Cons d docs)
  let ?rel = "local_path (doc_category d) (doc_title d)"
  from Cons.prems have "clone_loop h docs
      (add_entry m ?rel (entry_of_doc h d), n + 1, write_local ?rel (content_of d) w)
      = (m1, n1, w1)"
    by (simp add: Let_def)
  from Cons.IH [OF this] show ?case
    by (auto simp: write_local_def update_conv' split: list.splits)
qed

lemma clone_loop_keys:
  "clone_loop h docs (m, n, w) = (m1, n1, w1) \<Longrightarrow>
     fst ` set m1 = fst ` set m \<union> (\<lambda>d. local_path (doc_category d) (doc_title d)) ` set docs
     \<and> fst ` set (files w1)
         = fst ` set (files w) \<union> (\<lambda>d. local_path (doc_category d) (doc_title d)) ` set docs
     \<and> (distinct (map fst m) \<longrightarrow> distinct (map fst m1))"
proof (induction docs arbitrary: m n w)
  case Nil
  then show ?case by simp
next
  case (Cons d docs)
  let ?rel = "local_path (doc_category d) (doc_title d)"
  from Cons.prems have "clone_loop h docs
      (add_entry m ?rel (entry_of_doc h d), n + 1, write_local ?rel (content_of d) w)
      = (m1, n1, w1)"
    by (simp add: Let_def)
  from Cons.IH [OF this] show ?case
    by (auto simp: add_entry_def write_local_def dom_update distinct_update)
qed

lemma last_filter_in_set:
  "filter P xs = y # ys \<Longrightarrow> last (y # ys) \<in> set xs \<and> P (last (y # ys))"
proof -
  assume a: "filter P xs = y # ys"
  have "last (y # ys) \<in> set (filter P xs)" unfolding a by (rule last_in_set) simp
  then show ?thesis by simp
qed

lemma cmd_clone_run:
  assumes "\<not> is_initialized w"
    and "\<not> unknown_category category"
    and "api_key w \<noteq> []"
    and "prefix ''https://'' (api_url w)"
    and "list_r rs (if truthy category then category else None) (store w) = (Ok_response docs, r')"
    and "docs \<noteq> []"
  shows "\<exists>m1 w1. clone_loop h docs
            ([], 0, w\<lparr>store := r',
                      requests := requests w @ [List_docs (if truthy category then category else None)],
                      printed := printed w @ [Fetching_docs]\<rparr>) = (m1, length docs, w1)
          \<and> cmd_clone rs h category w
              = (None, print Edit_hint (print (Cloned (length docs)) (save m1 w1)))"
proof -
  let ?w2 = "w\<lparr>store := r',
               requests := requests w @ [List_docs (if truthy category then category else None)],
               printed := printed w @ [Fetching_docs]\<rparr>"
  obtain m1 n1 w1 where loop: "clone_loop h docs ([], 0, ?w2) = (m1, n1, w1)"
    by (cases "clone_loop h docs ([], 0, ?w2)") auto
  from clone_loop_frame [OF loop] have n1: "n1 = length docs" by simp
  have "list_docs rs category (print Fetching_docs w) = (Inr docs, ?w2)"
    using assms(5) by (simp add: list_docs_def print_def handle_response_def sent_def Let_def)
  then have "cmd_clone rs h category w
              = (None, print Edit_hint (print (Cloned n1) (save m1 w1)))"
    using assms(1-4,6) loop by (simp add: cmd_clone_def ApiClient_def)
  with loop n1 show ?thesis by blast
qed

section \<open>Clone, then status\<close>

















text \<open>
  Three more inputs on which clone followed by status reports a change. A document whose
  content holds a carriage return is written as it is and read back with the line end
  translated, so its hash differs from the stored one and status reports it as modified.
  A \<^verbatim>\<open>.md\<close> file that was under the knowledge root before the clone, at a path the clone does
  not write, is reported as new. A document whose category ends in \<^verbatim>\<open>.md\<close> is written into a
  directory of that name, which \<^verbatim>\<open>rglob\<close> lists and status reports as new.
\<close>

lemma clone_then_status_carriage_return:
  "cmd_status sample_hash
     (snd (cmd_clone sample_store sample_hash None
        (sample_world [] None
           [sample_doc ''d1'' 1 ''general'' ''a.md'' [CHR ''x'', CHR 0x0D, CHR 0x0A, CHR ''y'']])))
   = (None,
      \<lparr>api_key = ''mdlm_key'', api_url = ''https://markdownlm.com'',
       files = [(''knowledge/general/a.md'', Text [CHR ''x'', CHR 0x0D, CHR 0x0A, CHR ''y''])],
       manifest_file =
         Some [(''knowledge/general/a.md'',
                sample_entry ''d1'' 1 ''general'' ''a.md''
                  (Some [CHR ''x'', CHR 0x0D, CHR 0x0A, CHR ''y'']))],
       manifest_writes =
         [[(''knowledge/general/a.md'',
            sample_entry ''d1'' 1 ''general'' ''a.md''
              (Some [CHR ''x'', CHR 0x0D, CHR 0x0A, CHR ''y'']))]],
       store = [sample_doc ''d1'' 1 ''general'' ''a.md'' [CHR ''x'', CHR 0x0D, CHR 0x0A, CHR ''y'']],
       requests = [List_docs None],
       printed = [Fetching_docs, Cloned 1, Edit_hint,
                  Status_report [] [''knowledge/general/a.md''] []]\<rparr>)"
  by code_simp

lemma clone_then_status_stray_file:
  "cmd_status sample_hash
     (snd (cmd_clone sample_store sample_hash None
        (sample_world [(''knowledge/notes.md'', Text ''N'')] None
           [sample_doc ''d1'' 1 ''general'' ''a.md'' ''A''])))
   = (None,
      \<lparr>api_key = ''mdlm_key'', api_url = ''https://markdownlm.com'',
       files = [(''knowledge/notes.md'', Text ''N''), (''knowledge/general/a.md'', Text ''A'')],
       manifest_file =
         Some [(''knowledge/general/a.md'', sample_entry ''d1'' 1 ''general'' ''a.md'' (Some ''A''))],
       manifest_writes =
         [[(''knowledge/general/a.md'', sample_entry ''d1'' 1 ''general'' ''a.md'' (Some ''A''))]],
       store = [sample_doc ''d1'' 1 ''general'' ''a.md'' ''A''],
       requests = [List_docs None],
       printed = [Fetching_docs, Cloned 1, Edit_hint, Status_report [''knowledge/notes.md''] [] []]\<rparr>)"
  by code_simp

lemma clone_then_status_md_category:
  "cmd_status sample_hash
     (snd (cmd_clone sample_store sample_hash None
        (sample_world [] None [sample_doc ''d1'' 1 ''notes.md'' ''a.md'' ''A''])))
   = (None,
      \<lparr>api_key = ''mdlm_key'', api_url = ''https://markdownlm.com'',
       files = [(''knowledge/notes.md/a.md'', Text ''A'')],
       manifest_file =
         Some [(''knowledge/notes.md/a.md'', sample_entry ''d1'' 1 ''notes.md'' ''a.md'' (Some ''A''))],
       manifest_writes =
         [[(''knowledge/notes.md/a.md'', sample_entry ''d1'' 1 ''notes.md'' ''a.md'' (Some ''A''))]],
       store = [sample_doc ''d1'' 1 ''notes.md'' ''a.md'' ''A''],
       requests = [List_docs None],
       printed = [Fetching_docs, Cloned 1, Edit_hint, Status_report [''knowledge/notes.md''] [] []]\<rparr>)"
  by code_simp




section \<open>Clone: two documents at one path\<close>

lemma snoc_last: "\<exists>y ys. zs @ [x] = y # ys \<and> last (y # ys) = x"
  by (cases zs) simp_all

lemma filter_last_wins:
  assumes "P d2" and "\<forall>d \<in> set after. \<not> P d"
  shows "\<exists>y ys. filter P (before @ d1 # between @ d2 # after) = y # ys \<and> last (y # ys) = d2"
proof -
  have "filter P after = []" using assms(2) by (simp add: filter_empty_conv)
  then have eq: "filter P (before @ d1 # between @ d2 # after)
               = filter P (before @ d1 # between) @ [d2]"
    using assms(1) by simp
  show ?thesis unfolding eq by (rule snoc_last)
qed

text \<open>
  Claim C10. When the document list that clone receives holds a document \<open>d1\<close> and, later,
  a document \<open>d2\<close> that maps to the same local path, \<open>d2\<close> being the last document of the
  list at that path: clone returns normally and prints nothing but its three progress lines
  (the count includes both documents); the file at the path holds the content of \<open>d2\<close>; the
  manifest that is saved has exactly one entry for the path, with the id, version, category,
  title of \<open>d2\<close> and the hash of its content; and, the ids of the listed documents being
  distinct, no entry of the manifest has the id of \<open>d1\<close>.
\<close>

theorem clone_same_path:
  assumes "\<not> is_initialized w"
    and "\<not> unknown_category category"
    and "api_key w \<noteq> []"
    and "prefix ''https://'' (api_url w)"
    and "list_r rs (if truthy category then category else None) (store w) = (Ok_response docs, r')"
    and "docs = before @ d1 # between @ d2 # after"
    and "local_path (doc_category d1) (doc_title d1) = local_path (doc_category d2) (doc_title d2)"
    and "\<forall>d \<in> set after. local_path (doc_category d) (doc_title d)
                             \<noteq> local_path (doc_category d2) (doc_title d2)"
  shows "\<exists>w1 m1. cmd_clone rs h category w = (None, w1)
           \<and> printed w1 = printed w @ [Fetching_docs, Cloned (length docs), Edit_hint]
           \<and> map_of (files w1) (local_path (doc_category d2) (doc_title d2))
               = Some (Text (content_of d2))
           \<and> manifest_file w1 = Some m1
           \<and> distinct (map fst m1)
           \<and> map_of m1 (local_path (doc_category d2) (doc_title d2))
               = Some \<lparr>entry_id = doc_id d2, entry_version = doc_version d2,
                       entry_category = doc_category d2, entry_title = doc_title d2,
                       entry_content_hash = Some (h (content_of d2))\<rparr>
           \<and> (distinct (map doc_id docs) \<longrightarrow> (\<forall>(p, e) \<in> set m1. entry_id e \<noteq> doc_id d1))"
proof -
  let ?lp = "\<lambda>d. local_path (doc_category d) (doc_title d)"
  let ?w2 = "w\<lparr>store := r',
               requests := requests w @ [List_docs (if truthy category then category else None)],
               printed := printed w @ [Fetching_docs]\<rparr>"
  have ne: "docs \<noteq> []" using assms(6) by simp
  from cmd_clone_run [OF assms(1-5) ne, of h] obtain m1 w1 where
    loop: "clone_loop h docs ([], 0, ?w2) = (m1, length docs, w1)"
    and clone: "cmd_clone rs h category w
              = (None, print Edit_hint (print (Cloned (length docs)) (save m1 w1)))"
    by blast
  let ?W = "print Edit_hint (print (Cloned (length docs)) (save m1 w1))"
  from clone_loop_frame [OF loop] have eq: "w1 = ?w2\<lparr>files := files w1\<rparr>" by simp
  have "printed w1 = printed w @ [Fetching_docs]" by (subst eq) simp
  then have pr: "printed ?W = printed w @ [Fetching_docs, Cloned (length docs), Edit_hint]"
    by (simp add: print_def save_def)
  have "\<exists>y ys. filter (\<lambda>d. ?lp d = ?lp d2) (before @ d1 # between @ d2 # after) = y # ys
          \<and> last (y # ys) = d2"
    using assms(8) by (intro filter_last_wins) simp_all
  then obtain y ys where f: "filter (\<lambda>d. ?lp d = ?lp d2) docs = y # ys"
    and l: "last (y # ys) = d2"
    unfolding assms(6) [symmetric] by blast
  have "map_of (files w1) (?lp d2) = Some (Text (content_of (last (y # ys))))"
    using clone_loop_files [OF loop, of "?lp d2"] by (simp only: f list.case)
  then have written: "map_of (files ?W) (?lp d2) = Some (Text (content_of d2))"
    by (simp only: l) (simp add: print_def save_def)
  have mf: "manifest_file ?W = Some m1" by (simp add: print_def save_def)
  have dist: "distinct (map fst m1)" using clone_loop_keys [OF loop] by simp
  have "map_of m1 (?lp d2) = Some (entry_of_doc h (last (y # ys)))"
    using clone_loop_manifest [OF loop, of "?lp d2"] by (simp only: f list.case)
  then have ent: "map_of m1 (?lp d2) = Some (entry_of_doc h d2)"
    by (simp only: l)
  have untracked: "\<forall>(p, e) \<in> set m1. entry_id e \<noteq> doc_id d1" if ids: "distinct (map doc_id docs)"
  proof (intro ballI, clarify)
    fix p e
    assume pe: "(p, e) \<in> set m1" and same: "entry_id e = doc_id d1"
    from pe dist have m: "map_of m1 p = Some e" by simp
    from pe have "p \<in> fst ` set m1" by force
    then have "p \<in> ?lp ` set docs" using clone_loop_keys [OF loop] by simp
    then have "filter (\<lambda>d. ?lp d = p) docs \<noteq> []" by (auto simp: filter_empty_conv)
    then obtain z zs where fz: "filter (\<lambda>d. ?lp d = p) docs = z # zs"
      by (cases "filter (\<lambda>d. ?lp d = p) docs") auto
    let ?dl = "last (z # zs)"
    from last_filter_in_set [OF fz] have dl: "?dl \<in> set docs" "?lp ?dl = p" by simp_all
    have "map_of m1 p = Some (entry_of_doc h ?dl)"
      using clone_loop_manifest [OF loop, of p] by (simp only: fz list.case)
    with m have "e = entry_of_doc h ?dl" by simp
    with same have "doc_id ?dl = doc_id d1" by (simp add: entry_of_doc_def)
    moreover have "d1 \<in> set docs" using assms(6) by simp
    moreover have "inj_on doc_id (set docs)" using ids by (simp add: distinct_map)
    ultimately have "?dl = d1" using dl(1) by (simp add: inj_on_def)
    with dl(2) assms(7) have "p = ?lp d2" by simp
    with fz f have "z # zs = y # ys" by simp
    then have "?dl = last (y # ys)" by (simp only:)
    with l have "?dl = d2" by (simp only:)
    with \<open>?dl = d1\<close> have "d1 = d2" by simp
    moreover from ids have "doc_id d1 \<noteq> doc_id d2" unfolding assms(6) by auto
    ultimately show False by simp
  qed
  have untracked': "distinct (map doc_id docs) \<longrightarrow> (\<forall>(p, e) \<in> set m1. entry_id e \<noteq> doc_id d1)"
    using untracked by (rule impI)
  have ent': "map_of m1 (?lp d2)
               = Some \<lparr>entry_id = doc_id d2, entry_version = doc_version d2,
                       entry_category = doc_category d2, entry_title = doc_title d2,
                       entry_content_hash = Some (h (content_of d2))\<rparr>"
    using ent by (simp only: entry_of_doc_def)
  show ?thesis
    by (intro exI [of _ ?W] exI [of _ m1] conjI)
      (rule clone pr written mf dist ent' untracked')+
qed

lemma clone_same_path_example:
  "cmd_clone sample_store sample_hash None
     (sample_world [] None
        [sample_doc ''d1'' 4 ''general'' ''a/b.md'' ''first'',
         sample_doc ''d2'' 7 ''general'' ''a_b.md'' ''second''])
   = (None,
      \<lparr>api_key = ''mdlm_key'', api_url = ''https://markdownlm.com'',
       files = [(''knowledge/general/a_b.md'', Text ''second'')],
       manifest_file =
         Some [(''knowledge/general/a_b.md'',
                sample_entry ''d2'' 7 ''general'' ''a_b.md'' (Some ''second''))],
       manifest_writes =
         [[(''knowledge/general/a_b.md'',
            sample_entry ''d2'' 7 ''general'' ''a_b.md'' (Some ''second''))]],
       store = [sample_doc ''d1'' 4 ''general'' ''a/b.md'' ''first'',
                sample_doc ''d2'' 7 ''general'' ''a_b.md'' ''second''],
       requests = [List_docs None],
       printed = [Fetching_docs, Cloned 2, Edit_hint]\<rparr>)"
  by code_simp

theorem clone_same_path_witness:
  "\<not> is_initialized (sample_world [] None
        [sample_doc ''d1'' 4 ''general'' ''a/b.md'' ''first'',
         sample_doc ''d2'' 7 ''general'' ''a_b.md'' ''second''])
   \<and> \<not> unknown_category None
   \<and> api_key (sample_world [] None
        [sample_doc ''d1'' 4 ''general'' ''a/b.md'' ''first'',
         sample_doc ''d2'' 7 ''general'' ''a_b.md'' ''second'']) \<noteq> []
   \<and> prefix ''https://'' (api_url (sample_world [] None
        [sample_doc ''d1'' 4 ''general'' ''a/b.md'' ''first'',
         sample_doc ''d2'' 7 ''general'' ''a_b.md'' ''second'']))
   \<and> list_r sample_store None
        [sample_doc ''d1'' 4 ''general'' ''a/b.md'' ''first'',
         sample_doc ''d2'' 7 ''general'' ''a_b.md'' ''second'']
      = (Ok_response [sample_doc ''d1'' 4 ''general'' ''a/b.md'' ''first'',
                      sample_doc ''d2'' 7 ''general'' ''a_b.md'' ''second''],
         [sample_doc ''d1'' 4 ''general'' ''a/b.md'' ''first'',
          sample_doc ''d2'' 7 ''general'' ''a_b.md'' ''second''])
   \<and> local_path ''general'' ''a/b.md'' = ''knowledge/general/a_b.md''
   \<and> local_path ''general'' ''a_b.md'' = ''knowledge/general/a_b.md''
   \<and> distinct (map doc_id
        [sample_doc ''d1'' 4 ''general'' ''a/b.md'' ''first'',
         sample_doc ''d2'' 7 ''general'' ''a_b.md'' ''second''])
   \<and> (\<exists>w1 m1. cmd_clone sample_store sample_hash None
          (sample_world [] None
             [sample_doc ''d1'' 4 ''general'' ''a/b.md'' ''first'',
              sample_doc ''d2'' 7 ''general'' ''a_b.md'' ''second'']) = (None, w1)
        \<and> printed w1 = [Fetching_docs, Cloned 2, Edit_hint]
        \<and> map_of (files w1) ''knowledge/general/a_b.md'' = Some (Text ''second'')
        \<and> manifest_file w1 = Some m1
        \<and> distinct (map fst m1)
        \<and> map_of m1 ''knowledge/general/a_b.md''
            = Some \<lparr>entry_id = ''d2'', entry_version = 7, entry_category = ''general'',
                    entry_title = ''a_b.md'', entry_content_hash = Some ''second''\<rparr>
        \<and> list_all (\<lambda>(p, e). entry_id e \<noteq> ''d1'') m1)"
proof -
  let ?d1 = "sample_doc ''d1'' 4 ''general'' ''a/b.md'' ''first''"
  let ?d2 = "sample_doc ''d2'' 7 ''general'' ''a_b.md'' ''second''"
  let ?docs = "[?d1, ?d2]"
  let ?w = "sample_world [] None ?docs"
  have 1: "\<not> is_initialized ?w" by (simp add: is_initialized_def sample_world_def)
  have 2: "\<not> unknown_category None" by (simp add: unknown_category_def)
  have 3: "api_key ?w \<noteq> []" by (simp add: sample_world_def)
  have 4: "prefix ''https://'' (api_url ?w)" by (simp add: sample_world_def)
  have l: "list_r sample_store None ?docs = (Ok_response ?docs, ?docs)"
    by (simp add: sample_store_def)
  then have 5: "list_r sample_store (if truthy None then None else None) (store ?w)
                  = (Ok_response ?docs, ?docs)"
    by (simp add: sample_world_def)
  have 6: "?docs = [] @ ?d1 # [] @ ?d2 # []" by simp
  have p1: "local_path ''general'' ''a/b.md'' = ''knowledge/general/a_b.md''" by code_simp
  have p2: "local_path ''general'' ''a_b.md'' = ''knowledge/general/a_b.md''" by code_simp
  have 7: "local_path (doc_category ?d1) (doc_title ?d1)
             = local_path (doc_category ?d2) (doc_title ?d2)"
    using p1 p2 by (simp add: sample_doc_def)
  have 8: "\<forall>d \<in> set []. local_path (doc_category d) (doc_title d)
             \<noteq> local_path (doc_category ?d2) (doc_title ?d2)"
    by simp
  have ids: "distinct (map doc_id ?docs)" by (simp add: sample_doc_def)
  from clone_same_path [where h = sample_hash, OF 1 2 3 4 5 6 7 8]
  obtain w1 m1 where r: "cmd_clone sample_store sample_hash None ?w = (None, w1)"
    "printed w1 = printed ?w @ [Fetching_docs, Cloned (length ?docs), Edit_hint]"
    "map_of (files w1) (local_path (doc_category ?d2) (doc_title ?d2))
       = Some (Text (content_of ?d2))"
    "manifest_file w1 = Some m1"
    "distinct (map fst m1)"
    "map_of m1 (local_path (doc_category ?d2) (doc_title ?d2))
       = Some \<lparr>entry_id = doc_id ?d2, entry_version = doc_version ?d2,
               entry_category = doc_category ?d2, entry_title = doc_title ?d2,
               entry_content_hash = Some (sample_hash (content_of ?d2))\<rparr>"
    "distinct (map doc_id ?docs) \<longrightarrow> (\<forall>(p, e) \<in> set m1. entry_id e \<noteq> doc_id ?d1)"
    by blast
  from r(7) ids have "list_all (\<lambda>(p, e). entry_id e \<noteq> ''d1'') m1"
    by (simp add: list_all_iff sample_doc_def)
  moreover from r(2) have "printed w1 = [Fetching_docs, Cloned 2, Edit_hint]"
    by (simp add: sample_world_def)
  moreover from r(3) p2 have "map_of (files w1) ''knowledge/general/a_b.md'' = Some (Text ''second'')"
    by (simp add: sample_doc_def content_of_def)
  moreover from r(6) p2 have "map_of m1 ''knowledge/general/a_b.md''
            = Some \<lparr>entry_id = ''d2'', entry_version = 7, entry_category = ''general'',
                    entry_title = ''a_b.md'', entry_content_hash = Some ''second''\<rparr>"
    by (simp add: sample_doc_def content_of_def sample_hash_def)
  ultimately have "\<exists>w1 m1. cmd_clone sample_store sample_hash None ?w = (None, w1)
        \<and> printed w1 = [Fetching_docs, Cloned 2, Edit_hint]
        \<and> map_of (files w1) ''knowledge/general/a_b.md'' = Some (Text ''second'')
        \<and> manifest_file w1 = Some m1
        \<and> distinct (map fst m1)
        \<and> map_of m1 ''knowledge/general/a_b.md''
            = Some \<lparr>entry_id = ''d2'', entry_version = 7, entry_category = ''general'',
                    entry_title = ''a_b.md'', entry_content_hash = Some ''second''\<rparr>
        \<and> list_all (\<lambda>(p, e). entry_id e \<noteq> ''d1'') m1"
    using r(1,4,5) by blast
  with 1 2 3 4 l p1 p2 ids show ?thesis by blast
qed

end
